theory Spec2Isabelle
  imports Complex_Main "HOL-Library.Word"
begin

section \<open>JavaScript values\<close>

text \<open>
  The figure normaliser works on untyped JSON-like data (\<^verbatim>\<open>any\<close> in the TypeScript
  source).  A JavaScript number is a double; here it is the rational it denotes, or one of
  the three non-finite values.  Negative zero is identified with zero (the code never
  distinguishes them).  A string is the list of its code units, each below 256 (the
  Latin-1 range).  A \<^verbatim>\<open>Date\<close> is its time value in milliseconds, \<open>None\<close> for an
  invalid date.  An object is the list of its own properties.
\<close>

datatype number = Fin rat | NaN | PosInf | NegInf

datatype jsval =
    JUndefined
  | JNull
  | JBool bool
  | JNum number
  | JStr string
  | JDate "int option"
  | JArr "jsval list"
  | JObj "(string \<times> jsval) list"

text \<open>
  The exceptions the code can raise: the \<^verbatim>\<open>Error\<close> thrown by \<^verbatim>\<open>decodeNdarray\<close> for an
  unknown dtype (it carries the dtype), the \<^verbatim>\<open>InvalidCharacterError\<close> of \<^verbatim>\<open>atob\<close>, and
  the \<^verbatim>\<open>RangeError\<close> of \<^verbatim>\<open>new Array(n)\<close> and of \<^verbatim>\<open>toISOString\<close>.
\<close>

datatype error = UnsupportedDtype string | InvalidCharacterError | RangeError

definition bindE :: "error + 'a \<Rightarrow> ('a \<Rightarrow> error + 'b) \<Rightarrow> error + 'b" where
  "bindE m f = (case m of Inl e \<Rightarrow> Inl e | Inr x \<Rightarrow> f x)"

fun mapE :: "('a \<Rightarrow> error + 'b) \<Rightarrow> 'a list \<Rightarrow> error + 'b list" where
  "mapE f [] = Inr []"
| "mapE f (x # xs) = bindE (f x) (\<lambda>y. bindE (mapE f xs) (\<lambda>ys. Inr (y # ys)))"

text \<open>
  Library functions of the JavaScript host that the code calls and whose results the
  program only passes on or compares: \<^verbatim>\<open>Number.prototype.toString\<close> outside the
  integers of magnitude up to \<open>2^53\<close>, \<^verbatim>\<open>Date.prototype.toString\<close>,
  \<^verbatim>\<open>Date.prototype.toISOString\<close> of a valid date, \<^verbatim>\<open>Date.parse\<close> (\<open>None\<close> when the
  result is \<^verbatim>\<open>NaN\<close>) and \<^verbatim>\<open>Number(string)\<close>.  The last field is the rounding of
  double arithmetic: the double, or infinity, nearest to a rational.
\<close>

record host =
  numberToString :: "rat \<Rightarrow> string"
  dateToString :: "int \<Rightarrow> string"
  toISOString :: "int \<Rightarrow> string"
  dateParse :: "string \<Rightarrow> int option"
  stringToNumber :: "string \<Rightarrow> number"
  roundToDouble :: "rat \<Rightarrow> number"

fun showNat :: "nat \<Rightarrow> string" where
  "showNat n =
     (if n < 10 then [''0123456789'' ! n]
      else showNat (n div 10) @ [''0123456789'' ! (n mod 10)])"

declare showNat.simps [simp del]

definition showInt :: "int \<Rightarrow> string" where
  "showInt i = (if i < 0 then CHR ''-'' # showNat (nat (- i)) else showNat (nat i))"

text \<open>
  \<^verbatim>\<open>String(n)\<close> of a number.  An integer of magnitude up to \<open>2^53\<close> is printed with
  its decimal digits; beyond that the digits are the shortest that round to the double,
  which is left to the host.
\<close>

definition numString :: "host \<Rightarrow> number \<Rightarrow> string" where
  "numString h n =
     (case n of
        Fin r \<Rightarrow>
          if r = of_int \<lfloor>r\<rfloor> \<and> \<bar>r\<bar> \<le> 9007199254740992 then showInt \<lfloor>r\<rfloor>
          else numberToString h r
      | NaN \<Rightarrow> ''NaN''
      | PosInf \<Rightarrow> ''Infinity''
      | NegInf \<Rightarrow> ''-Infinity'')"

fun joinComma :: "string list \<Rightarrow> string" where
  "joinComma [] = []"
| "joinComma [s] = s"
| "joinComma (s # t # ss) = s @ '','' @ joinComma (t # ss)"

text \<open>\<^verbatim>\<open>String(v)\<close>.\<close>

fun jsString :: "host \<Rightarrow> jsval \<Rightarrow> string" where
  "jsString h JUndefined = ''undefined''"
| "jsString h JNull = ''null''"
| "jsString h (JBool b) = (if b then ''true'' else ''false'')"
| "jsString h (JNum n) = numString h n"
| "jsString h (JStr s) = s"
| "jsString h (JDate d) = (case d of None \<Rightarrow> ''Invalid Date'' | Some ms \<Rightarrow> dateToString h ms)"
| "jsString h (JArr xs) =
     joinComma (map (\<lambda>v. if v = JUndefined \<or> v = JNull then [] else jsString h v) xs)"
| "jsString h (JObj kvs) = ''[object Object]''"

text \<open>Truthiness, \<^verbatim>\<open>a ?? b\<close>, \<^verbatim>\<open>a || b\<close> on optional strings, \<^verbatim>\<open>xs[i]\<close>, \<^verbatim>\<open>o.k\<close>.\<close>

fun truthy :: "jsval \<Rightarrow> bool" where
  "truthy JUndefined = False"
| "truthy JNull = False"
| "truthy (JBool b) = b"
| "truthy (JNum n) = (n \<noteq> NaN \<and> n \<noteq> Fin 0)"
| "truthy (JStr s) = (s \<noteq> [])"
| "truthy (JDate d) = True"
| "truthy (JArr xs) = True"
| "truthy (JObj kvs) = True"

definition isNullish :: "jsval \<Rightarrow> bool" where
  "isNullish v = (v = JUndefined \<or> v = JNull)"

definition nullish :: "jsval \<Rightarrow> jsval \<Rightarrow> jsval" where
  "nullish a b = (if isNullish a then b else a)"

definition orElse :: "string option \<Rightarrow> string \<Rightarrow> string" where
  "orElse a d = (case a of None \<Rightarrow> d | Some s \<Rightarrow> if s = [] then d else s)"

definition elemAt :: "jsval list \<Rightarrow> nat \<Rightarrow> jsval" where
  "elemAt xs i = (if i < length xs then xs ! i else JUndefined)"

fun getProp :: "jsval \<Rightarrow> string \<Rightarrow> jsval" where
  "getProp (JObj kvs) k = (case map_of kvs k of None \<Rightarrow> JUndefined | Some v \<Rightarrow> v)"
| "getProp v k = JUndefined"

definition numOfNat :: "nat \<Rightarrow> jsval" where
  "numOfNat n = JNum (Fin (of_nat n))"

text \<open>
  \<^verbatim>\<open>toLowerCase\<close> on code units below 256: the letters A to Z, and the Latin-1
  capitals from 192 to 222 other than the multiplication sign 215.
\<close>

definition toLowerCase :: "string \<Rightarrow> string" where
  "toLowerCase s =
     map (\<lambda>c. case map_of (zip ''ABCDEFGHIJKLMNOPQRSTUVWXYZ'' ''abcdefghijklmnopqrstuvwxyz'') c of
                None \<Rightarrow>
                  (let n = (of_char c :: nat)
                   in if 192 \<le> n \<and> n \<le> 222 \<and> n \<noteq> 215 then char_of (n + 32) else c)
              | Some l \<Rightarrow> l) s"

section \<open>Data model\<close>

record DataColumn =
  name :: string
  vals :: "jsval list"

record DataTable =
  title :: "string option"
  columns :: "DataColumn list"
  meta :: "(string \<times> jsval) list"

text \<open>
  A trace: the fields the interface declares with a type (\<^verbatim>\<open>type\<close>, \<^verbatim>\<open>name\<close>,
  \<^verbatim>\<open>coloraxis\<close>, \<^verbatim>\<open>colorbar.title.text\<close>) and, in \<open>props\<close>, every other property
  (\<^verbatim>\<open>x\<close>, \<^verbatim>\<open>y\<close>, \<^verbatim>\<open>z\<close>, \<^verbatim>\<open>labels\<close>, ... of type \<^verbatim>\<open>any\<close>).
\<close>

record PlotlyTrace =
  ttype :: "string option"
  tname :: "string option"
  coloraxis :: "string option"
  colorbarTitleText :: "string option"
  props :: "(string \<times> jsval) list"

record PlotlyFigureLike =
  data :: "PlotlyTrace list option"
  layout :: jsval

record ExtractOptions =
  mergeCartesian :: "bool option"
  unnamedYPrefix :: "string option"
  coerceDates :: "bool option"
  xColumnName :: "string option"

definition tfield :: "PlotlyTrace \<Rightarrow> string \<Rightarrow> jsval" where
  "tfield t k = (case map_of (props t) k of None \<Rightarrow> JUndefined | Some v \<Rightarrow> v)"

section \<open>ndarray helpers\<close>

type_synonym byte = "8 word"

record NdarrayLike =
  dtype :: string
  bdata :: string

definition isNdarrayLike :: "jsval \<Rightarrow> bool" where
  "isNdarrayLike obj =
     (case obj of
        JObj kvs \<Rightarrow>
          (case (getProp obj ''dtype'', getProp obj ''bdata'') of
             (JStr d, JStr b) \<Rightarrow> True
           | _ \<Rightarrow> False)
      | _ \<Rightarrow> False)"

definition asNdarray :: "jsval \<Rightarrow> NdarrayLike" where
  "asNdarray obj =
     \<lparr>dtype = (case getProp obj ''dtype'' of JStr d \<Rightarrow> d | _ \<Rightarrow> []),
      bdata = (case getProp obj ''bdata'' of JStr b \<Rightarrow> b | _ \<Rightarrow> [])\<rparr>"

text \<open>
  \<^verbatim>\<open>atob\<close> (the branch \<^verbatim>\<open>base64ToBytes\<close> takes wherever \<^verbatim>\<open>atob\<close> is a function): the
  forgiving base64 decoding of the HTML standard.  ASCII whitespace is dropped; when the
  length is then a multiple of four, one or two trailing \<^verbatim>\<open>=\<close> are dropped; a length of
  1 modulo 4 or a character outside the alphabet raises \<^verbatim>\<open>InvalidCharacterError\<close>; a
  last group of two or three characters gives one or two bytes.
\<close>

definition isAsciiWhitespace :: "char \<Rightarrow> bool" where
  "isAsciiWhitespace c = ((of_char c :: nat) \<in> {9, 10, 12, 13, 32})"

definition b64index :: "char \<Rightarrow> nat option" where
  "b64index c =
     (let n = (of_char c :: nat) in
      if 65 \<le> n \<and> n \<le> 90 then Some (n - 65)
      else if 97 \<le> n \<and> n \<le> 122 then Some (n - 71)
      else if 48 \<le> n \<and> n \<le> 57 then Some (n + 4)
      else if n = 43 then Some 62
      else if n = 47 then Some 63
      else None)"

definition stripPadding :: "string \<Rightarrow> string" where
  "stripPadding s =
     (if length s mod 4 = 0 then
        (if 2 \<le> length s \<and> drop (length s - 2) s = ''=='' then take (length s - 2) s
         else if 1 \<le> length s \<and> drop (length s - 1) s = ''='' then take (length s - 1) s
         else s)
      else s)"

fun b64groups :: "nat list \<Rightarrow> byte list" where
  "b64groups (a # b # c # d # rest) =
     (let n = ((a * 64 + b) * 64 + c) * 64 + d
      in of_nat (n div 65536) # of_nat (n div 256) # of_nat n # b64groups rest)"
| "b64groups [a, b, c] = (let n = (a * 64 + b) * 64 + c in [of_nat (n div 1024), of_nat (n div 4)])"
| "b64groups [a, b] = [of_nat ((a * 64 + b) div 16)]"
| "b64groups [a] = []"
| "b64groups [] = []"

definition atob :: "string \<Rightarrow> error + byte list" where
  "atob b64 =
     (let s = stripPadding (filter (\<lambda>c. \<not> isAsciiWhitespace c) b64) in
      if length s mod 4 = 1 \<or> list_ex (\<lambda>c. b64index c = None) s then Inl InvalidCharacterError
      else Inr (b64groups (map (\<lambda>c. the (b64index c)) s)))"

definition base64ToBytes :: "string \<Rightarrow> error + byte list" where
  "base64ToBytes b64 = bindE (atob b64) (\<lambda>bin. Inr (map (\<lambda>i. bin ! i) [0..<length bin]))"

text \<open>
  A typed-array view of \<open>n\<close> elements of \<open>k\<close> bytes each over a buffer, from offset 0;
  an element is read in little-endian byte order.
\<close>

definition typedView :: "nat \<Rightarrow> nat \<Rightarrow> byte list \<Rightarrow> byte list list" where
  "typedView k n bytes = map (\<lambda>i. take k (drop (i * k) bytes)) [0..<n]"

definition leNat :: "byte list \<Rightarrow> nat" where
  "leNat bs = foldr (\<lambda>b acc. unat b + 256 * acc) bs 0"

definition toSigned :: "nat \<Rightarrow> nat \<Rightarrow> int" where
  "toSigned w v = (if v < 2 ^ (w - 1) then int v else int v - 2 ^ w)"

definition uintElem :: "byte list \<Rightarrow> jsval" where
  "uintElem e = JNum (Fin (of_nat (leNat e)))"

definition intElem :: "nat \<Rightarrow> byte list \<Rightarrow> jsval" where
  "intElem w e = JNum (Fin (of_int (toSigned w (leNat e))))"

text \<open>
  The value of an IEEE 754 bit pattern with \<open>eb\<close> exponent bits and \<open>mb\<close> mantissa bits
  (8 and 23 for \<^verbatim>\<open>Float32Array\<close>, 11 and 52 for \<^verbatim>\<open>Float64Array\<close>).
\<close>

definition ieeeValue :: "nat \<Rightarrow> nat \<Rightarrow> nat \<Rightarrow> number" where
  "ieeeValue eb mb v =
     (let m = v mod 2 ^ mb;
          e = (v div 2 ^ mb) mod 2 ^ eb;
          s = v div 2 ^ (mb + eb);
          bias = 2 ^ (eb - 1) - 1
      in if e = 2 ^ eb - 1 then (if m = 0 then (if s = 0 then PosInf else NegInf) else NaN)
         else
           (let mag = (if e = 0 then (of_nat m :: rat) * 2 / 2 ^ (bias + mb)
                       else of_nat (2 ^ mb + m) * 2 ^ e / 2 ^ (bias + mb))
            in Fin (if s = 0 then mag else - mag)))"

definition floatElem :: "nat \<Rightarrow> nat \<Rightarrow> byte list \<Rightarrow> jsval" where
  "floatElem eb mb e = JNum (ieeeValue eb mb (leNat e))"

definition decodeNdarray :: "NdarrayLike \<Rightarrow> error + jsval list" where
  "decodeNdarray obj =
     bindE (base64ToBytes (bdata obj)) (\<lambda>bytes.
       let n = length bytes in
       if dtype obj = ''i1'' then Inr (map (intElem 8) (typedView 1 n bytes))
       else if dtype obj = ''u1'' then Inr (map uintElem (typedView 1 n bytes))
       else if dtype obj = ''i2'' then Inr (map (intElem 16) (typedView 2 (n div 2) bytes))
       else if dtype obj = ''u2'' then Inr (map uintElem (typedView 2 (n div 2) bytes))
       else if dtype obj = ''i4'' then Inr (map (intElem 32) (typedView 4 (n div 4) bytes))
       else if dtype obj = ''u4'' then Inr (map uintElem (typedView 4 (n div 4) bytes))
       else if dtype obj = ''f4'' then Inr (map (floatElem 8 23) (typedView 4 (n div 4) bytes))
       else if dtype obj = ''f8'' then Inr (map (floatElem 11 52) (typedView 8 (n div 8) bytes))
       else Inl (UnsupportedDtype (dtype obj)))"

text \<open>
  \<^verbatim>\<open>parseShape\<close>: an array of numbers is copied; a string is split at runs of commas
  and whitespace (the class \<^verbatim>\<open>\s\<close>: below 256 these are the code units 9 to 13, 32
  and 160), the empty pieces are dropped and the rest converted by \<^verbatim>\<open>Number\<close>;
  anything else, and a string with a piece that is not finite, gives \<^verbatim>\<open>null\<close>.
\<close>

definition isShapeSep :: "char \<Rightarrow> bool" where
  "isShapeSep c = (c = CHR '','' \<or> (of_char c :: nat) \<in> {9, 10, 11, 12, 13, 32, 160})"

fun splitShape :: "string \<Rightarrow> string \<Rightarrow> string list" where
  "splitShape [] cur = (if cur = [] then [] else [cur])"
| "splitShape (c # cs) cur =
     (if isShapeSep c then (if cur = [] then splitShape cs [] else cur # splitShape cs [])
      else splitShape cs (cur @ [c]))"

definition isNum :: "jsval \<Rightarrow> bool" where
  "isNum v = (case v of JNum n \<Rightarrow> True | _ \<Rightarrow> False)"

definition numOf :: "jsval \<Rightarrow> number" where
  "numOf v = (case v of JNum n \<Rightarrow> n | _ \<Rightarrow> NaN)"

definition isFinite :: "number \<Rightarrow> bool" where
  "isFinite n = (case n of Fin r \<Rightarrow> True | _ \<Rightarrow> False)"

definition parseShape :: "host \<Rightarrow> jsval \<Rightarrow> number list option" where
  "parseShape h shape =
     (if \<not> truthy shape then None
      else case shape of
        JArr xs \<Rightarrow> (if list_all isNum xs then Some (map numOf xs) else None)
      | JStr s \<Rightarrow>
          (let parts = map (stringToNumber h) (splitShape s [])
           in if list_all isFinite parts then Some parts else None)
      | _ \<Rightarrow> None)"

text \<open>
  \<^verbatim>\<open>new Array(rows)\<close> raises \<^verbatim>\<open>RangeError\<close> unless \<open>rows\<close> is an integer from 0 to
  \<open>2^32 - 1\<close>.  \<^verbatim>\<open>slice(start, end)\<close> truncates its arguments towards zero, counts a
  negative one from the end, and clamps both to the array.
\<close>

definition natNum :: "nat \<Rightarrow> number" where
  "natNum n = Fin (of_nat n)"

definition validArrayLength :: "number \<Rightarrow> nat option" where
  "validArrayLength n =
     (case n of
        Fin r \<Rightarrow> if r = of_int \<lfloor>r\<rfloor> \<and> 0 \<le> r \<and> r \<le> 4294967295 then Some (nat \<lfloor>r\<rfloor>) else None
      | _ \<Rightarrow> None)"

text \<open>
  The product \<^verbatim>\<open>r * cols\<close> of a loop counter and a number.  A product that is an
  integer is taken as it is; any other is rounded to a double by the host.  (An integer
  beyond \<open>2^53\<close> would be rounded too: as an argument of \<^verbatim>\<open>slice\<close> it is clamped
  to the length of the array, which is below \<open>2^32\<close>, and so is its rounding.)
\<close>

definition mulNat :: "host \<Rightarrow> nat \<Rightarrow> number \<Rightarrow> number" where
  "mulNat h k n =
     (case n of
        Fin r \<Rightarrow>
          (let p = of_nat k * r in if p = of_int \<lfloor>p\<rfloor> then Fin p else roundToDouble h p)
      | NaN \<Rightarrow> NaN
      | PosInf \<Rightarrow> if k = 0 then NaN else PosInf
      | NegInf \<Rightarrow> if k = 0 then NaN else NegInf)"

definition relIndex :: "nat \<Rightarrow> number \<Rightarrow> nat" where
  "relIndex len n =
     (case n of
        NaN \<Rightarrow> 0
      | NegInf \<Rightarrow> 0
      | PosInf \<Rightarrow> len
      | Fin r \<Rightarrow>
          (let i = (if 0 \<le> r then \<lfloor>r\<rfloor> else \<lceil>r\<rceil>)
           in if i < 0 then nat (int len + i) else min (nat i) len))"

definition slice :: "'a list \<Rightarrow> number \<Rightarrow> number \<Rightarrow> 'a list" where
  "slice xs s e =
     (let k = relIndex (length xs) s; f = relIndex (length xs) e in take (f - k) (drop k xs))"

definition reshape2D ::
  "host \<Rightarrow> 'a list \<Rightarrow> number \<Rightarrow> number \<Rightarrow> error + 'a list list" where
  "reshape2D h flat rows cols =
     (case validArrayLength rows of
        None \<Rightarrow> Inl RangeError
      | Some n \<Rightarrow> Inr (map (\<lambda>r. slice flat (mulNat h r cols) (mulNat h (r + 1) cols)) [0..<n]))"

definition transposeM :: "jsval list list \<Rightarrow> jsval list list" where
  "transposeM m =
     (if m = [] then []
      else map (\<lambda>j. map (\<lambda>row. elemAt row j) m) [0..<length (hd m)])"

section \<open>tiny utils\<close>

definition toLength :: "number \<Rightarrow> nat" where
  "toLength n =
     (case n of
        Fin r \<Rightarrow> if r \<le> 0 then 0 else nat (min \<lfloor>r\<rfloor> 9007199254740991)
      | PosInf \<Rightarrow> 9007199254740991
      | _ \<Rightarrow> 0)"

text \<open>
  \<^verbatim>\<open>toArray\<close>.  \<^verbatim>\<open>Array.from\<close> of an array-like object reads the properties
  \<^verbatim>\<open>0 .. length - 1\<close>; it raises for a length above \<open>2^32 - 1\<close>, which the
  \<^verbatim>\<open>try\<close> block catches.
\<close>

definition toArray :: "jsval \<Rightarrow> error + jsval list" where
  "toArray v =
     (if isNullish v then Inr []
      else if isNdarrayLike v then decodeNdarray (asNdarray v)
      else case v of
        JArr xs \<Rightarrow> Inr xs
      | JObj kvs \<Rightarrow>
          (case getProp v ''length'' of
             JNum n \<Rightarrow>
               (let len = toLength n
                in if len \<le> 4294967295 then Inr (map (\<lambda>i. getProp v (showNat i)) [0..<len])
                   else Inr [v])
           | _ \<Rightarrow> Inr [v])
      | _ \<Rightarrow> Inr [v])"

text \<open>
  The axis titles are declared \<^verbatim>\<open>string | undefined\<close>: a title that is a string, or
  the string \<^verbatim>\<open>text\<close> of a title object.
\<close>

definition axisTitle :: "jsval \<Rightarrow> string option" where
  "axisTitle t =
     (case t of
        JStr s \<Rightarrow> Some s
      | _ \<Rightarrow> (case getProp t ''text'' of JStr s \<Rightarrow> Some s | _ \<Rightarrow> None))"

definition getXAxisTitle :: "PlotlyFigureLike \<Rightarrow> string option" where
  "getXAxisTitle fig = axisTitle (getProp (getProp (layout fig) ''xaxis'') ''title'')"

definition getYAxisTitle :: "PlotlyFigureLike \<Rightarrow> string option" where
  "getYAxisTitle fig = axisTitle (getProp (getProp (layout fig) ''yaxis'') ''title'')"

definition colorTitleFromFig :: "PlotlyFigureLike \<Rightarrow> PlotlyTrace \<Rightarrow> string option" where
  "colorTitleFromFig fig t =
     (let viaAxis =
            (case coloraxis t of
               None \<Rightarrow> None
             | Some axisKey \<Rightarrow>
                 if axisKey = [] then Some []
                 else (case getProp (getProp (getProp (getProp (layout fig) axisKey)
                                ''colorbar'') ''title'') ''text'' of
                         JStr s \<Rightarrow> Some s
                       | _ \<Rightarrow> None))
      in case colorbarTitleText t of
           None \<Rightarrow> viaAxis
         | Some perTrace \<Rightarrow> if perTrace \<noteq> [] then Some perTrace else viaAxis)"

section \<open>tables\<close>

definition padColumnsToSameLength :: "DataColumn list \<Rightarrow> DataColumn list" where
  "padColumnsToSameLength cols =
     (let n = foldr (\<lambda>c m. max (length (vals c)) m) cols 0
      in map (\<lambda>c. if length (vals c) = n then c
                   else c\<lparr>vals := vals c @ replicate (n - length (vals c)) JNull\<rparr>) cols)"

definition makeTable ::
  "string option \<Rightarrow> DataColumn list \<Rightarrow> (string \<times> jsval) list \<Rightarrow> DataTable" where
  "makeTable ttl cols m = \<lparr>title = ttl, columns = padColumnsToSameLength cols, meta = m\<rparr>"

section \<open>trace converters\<close>

definition colName :: "nat \<Rightarrow> jsval" where
  "colName i = JStr (''col_'' @ showNat i)"

definition fromTableTrace :: "host \<Rightarrow> PlotlyTrace \<Rightarrow> error + DataTable" where
  "fromTableTrace h t =
     bindE (case getProp (tfield t ''header'') ''values'' of
              JArr (h0 # hs) \<Rightarrow> toArray h0
            | _ \<Rightarrow> Inr []) (\<lambda>headers.
     bindE (case getProp (tfield t ''cells'') ''values'' of
              JArr cs \<Rightarrow> mapE toArray cs
            | _ \<Rightarrow> Inr []) (\<lambda>cellsCols.
       let cols =
             (if cellsCols \<noteq> [] then
                map (\<lambda>(i, col). \<lparr>name = jsString h (nullish (elemAt headers i) (colName (i + 1))),
                                 vals = col\<rparr>) (enumerate 0 cellsCols)
              else if headers \<noteq> [] then
                map (\<lambda>(i, hd). \<lparr>name = jsString h (nullish hd (colName (i + 1))), vals = []\<rparr>)
                  (enumerate 0 headers)
              else [\<lparr>name = ''col_1'', vals = []\<rparr>])
       in Inr (makeTable (Some (orElse (tname t) ''table'')) cols
                 [(''traceType'', JStr ''table'')])))"

text \<open>
  \<^verbatim>\<open>fromHeatmapLike\<close>, in its three steps.  \<open>ndarrayZ\<close> is the branch for a
  binary-encoded \<^verbatim>\<open>z\<close>: the shape is the parsed \<^verbatim>\<open>shape\<close>; if none parsed, the label
  counts when both label arrays are non-empty; if there is still none, a square when the
  length is a perfect square.  A shape with two or more entries reshapes by its first two,
  and the result is transposed when the shape disagrees with the label counts and its
  swap agrees.  Any other shape gives one row.
\<close>

definition sqrtInt :: "nat \<Rightarrow> nat option" where
  "sqrtInt n = find (\<lambda>k. k * k = n) [0..<Suc n]"

definition ndarrayZ ::
  "host \<Rightarrow> jsval list \<Rightarrow> jsval list \<Rightarrow> jsval \<Rightarrow> error + jsval list list" where
  "ndarrayZ h xVals yVals z =
     bindE (decodeNdarray (asNdarray z)) (\<lambda>flat.
       let shp0 = parseShape h (getProp z ''shape'');
           shp1 = (if shp0 = None \<and> xVals \<noteq> [] \<and> yVals \<noteq> []
                   then Some [natNum (length yVals), natNum (length xVals)] else shp0);
           shp2 = (if shp1 = None
                   then (case sqrtInt (length flat) of
                           Some n \<Rightarrow> Some [natNum n, natNum n]
                         | None \<Rightarrow> None)
                   else shp1)
       in case shp2 of
            Some (s0 # s1 # rest) \<Rightarrow>
              bindE (reshape2D h flat s0 s1) (\<lambda>Z.
                if xVals \<noteq> [] \<and> yVals \<noteq> []
                   \<and> (s0 \<noteq> natNum (length yVals) \<or> s1 \<noteq> natNum (length xVals))
                   \<and> s1 = natNum (length yVals) \<and> s0 = natNum (length xVals)
                then Inr (transposeM Z)
                else Inr Z)
          | _ \<Rightarrow> Inr [flat])"

definition isArr :: "jsval \<Rightarrow> bool" where
  "isArr v = (case v of JArr xs \<Rightarrow> True | _ \<Rightarrow> False)"

definition heatmapZ ::
  "host \<Rightarrow> jsval list \<Rightarrow> jsval list \<Rightarrow> jsval \<Rightarrow> error + jsval list list" where
  "heatmapZ h xVals yVals z =
     (if isNdarrayLike z then ndarrayZ h xVals yVals z
      else case z of
        JArr zs \<Rightarrow>
          if isArr (elemAt zs 0) then mapE toArray zs
          else bindE (toArray z) (\<lambda>vec.
                 if xVals \<noteq> [] \<and> yVals \<noteq> [] \<and> length vec = length xVals * length yVals
                 then reshape2D h vec (natNum (length yVals)) (natNum (length xVals))
                 else Inr [vec])
      | _ \<Rightarrow> bindE (toArray z) (\<lambda>vec. Inr [vec]))"

definition fitZ :: "nat \<Rightarrow> nat \<Rightarrow> jsval list list \<Rightarrow> jsval list list" where
  "fitZ rows cols Z =
     (let Z1 = map (take cols) (take rows Z);
          Z2 = Z1 @ replicate (rows - length Z1) (replicate cols JNull)
      in map (\<lambda>r. if length r < cols then r @ replicate (cols - length r) JNull else r) Z2)"

definition fromHeatmapLike ::
  "host \<Rightarrow> PlotlyFigureLike \<Rightarrow> PlotlyTrace \<Rightarrow> error + DataTable" where
  "fromHeatmapLike h fig t =
     bindE (toArray (tfield t ''x'')) (\<lambda>xVals.
     bindE (toArray (tfield t ''y'')) (\<lambda>yVals.
     bindE (heatmapZ h xVals yVals (tfield t ''z'')) (\<lambda>Z0.
       let rows = (if yVals \<noteq> [] then length yVals else length Z0);
           cols = (if xVals \<noteq> [] then length xVals
                   else (case Z0 of [] \<Rightarrow> 0 | r0 # rs \<Rightarrow> length r0));
           Z = fitZ rows cols Z0;
           yTitle = orElse (getYAxisTitle fig) ''y'';
           cols0 = [\<lparr>name = yTitle,
                     vals = (if yVals \<noteq> [] then yVals else map numOfNat [0..<rows])\<rparr>];
           colsX = map (\<lambda>c. \<lparr>name = jsString h (nullish (elemAt xVals c) (colName c)),
                              vals = map (\<lambda>row. nullish (elemAt row c) JNull) Z\<rparr>) [0..<cols];
           valueTitle = orElse (colorTitleFromFig fig t) ''z'';
           typeOr = (case ttype t of None \<Rightarrow> ''heatmap'' | Some s \<Rightarrow> s)
       in Inr (makeTable (Some (orElse (tname t) typeOr)) (cols0 @ colsX)
                 [(''traceType'', JStr typeOr), (''valueTitle'', JStr valueTitle)]))))"

definition fromPieLike :: "PlotlyTrace \<Rightarrow> error + DataTable" where
  "fromPieLike t =
     bindE (toArray (tfield t ''labels'')) (\<lambda>labels.
     bindE (toArray (tfield t ''values'')) (\<lambda>vs.
     bindE (toArray (tfield t ''parents'')) (\<lambda>parents.
       let cols = [\<lparr>name = ''label'', vals = labels\<rparr>, \<lparr>name = ''value'', vals = vs\<rparr>]
                    @ (if parents \<noteq> [] then [\<lparr>name = ''parent'', vals = parents\<rparr>] else []);
           typeOr = (case ttype t of None \<Rightarrow> ''pie'' | Some s \<Rightarrow> s)
       in Inr (makeTable (Some (orElse (tname t) typeOr)) cols [(''traceType'', JStr typeOr)]))))"

definition fromOhlcLike :: "PlotlyTrace \<Rightarrow> error + DataTable" where
  "fromOhlcLike t =
     bindE (toArray (tfield t ''x'')) (\<lambda>x.
     bindE (toArray (tfield t ''open'')) (\<lambda>opn.
     bindE (toArray (tfield t ''high'')) (\<lambda>high.
     bindE (toArray (tfield t ''low'')) (\<lambda>low.
     bindE (toArray (tfield t ''close'')) (\<lambda>cls.
       let typeOr = (case ttype t of None \<Rightarrow> ''ohlc'' | Some s \<Rightarrow> s)
       in Inr (makeTable (Some (orElse (tname t) typeOr))
                 [\<lparr>name = ''x'', vals = x\<rparr>, \<lparr>name = ''open'', vals = opn\<rparr>,
                  \<lparr>name = ''high'', vals = high\<rparr>, \<lparr>name = ''low'', vals = low\<rparr>,
                  \<lparr>name = ''close'', vals = cls\<rparr>]
                 [(''traceType'', JStr typeOr)]))))))"

definition fromWaterfall :: "PlotlyTrace \<Rightarrow> error + DataTable" where
  "fromWaterfall t =
     bindE (toArray (tfield t ''x'')) (\<lambda>x.
     bindE (toArray (tfield t ''y'')) (\<lambda>y.
     bindE (toArray (tfield t ''measure'')) (\<lambda>measure.
       let cols = [\<lparr>name = ''x'', vals = x\<rparr>, \<lparr>name = ''y'', vals = y\<rparr>]
                    @ (if measure \<noteq> [] then [\<lparr>name = ''measure'', vals = measure\<rparr>] else [])
       in Inr (makeTable (Some (orElse (tname t) ''waterfall'')) cols
                 [(''traceType'', JStr ''waterfall'')]))))"

definition fromChoropleth :: "PlotlyFigureLike \<Rightarrow> PlotlyTrace \<Rightarrow> error + DataTable" where
  "fromChoropleth fig t =
     (let valueCol = orElse (colorTitleFromFig fig t) ''value'' in
      bindE (toArray (tfield t ''locations'')) (\<lambda>locations.
      bindE (toArray (tfield t ''z'')) (\<lambda>z.
        Inr (makeTable (Some (orElse (tname t) ''choropleth''))
               [\<lparr>name = ''location'', vals = locations\<rparr>, \<lparr>name = valueCol, vals = z\<rparr>]
               [(''traceType'', JStr ''choropleth''),
                (''locationmode'', tfield t ''locationmode''),
                (''geo'', tfield t ''geo'')]))))"

definition fromBoxOrViolin :: "PlotlyFigureLike \<Rightarrow> PlotlyTrace \<Rightarrow> error + DataTable" where
  "fromBoxOrViolin fig t =
     bindE (toArray (tfield t ''x'')) (\<lambda>xs.
     bindE (toArray (tfield t ''y'')) (\<lambda>ys.
       let xVals = (if xs \<noteq> [] then xs
                    else replicate (length ys)
                           (JStr (case tname t of None \<Rightarrow> ''group'' | Some n \<Rightarrow> n)));
           xTitle = orElse (getXAxisTitle fig) ''x'';
           yTitle = orElse (getYAxisTitle fig) ''y'';
           typeOr = (case ttype t of None \<Rightarrow> ''box'' | Some s \<Rightarrow> s)
       in Inr (makeTable (Some (orElse (tname t) typeOr))
                 [\<lparr>name = xTitle, vals = xVals\<rparr>, \<lparr>name = yTitle, vals = ys\<rparr>]
                 [(''traceType'', JStr typeOr), (''longForm'', JBool True)])))"

definition isCartesianTrace :: "PlotlyTrace \<Rightarrow> bool" where
  "isCartesianTrace t =
     ((\<not> isNullish (tfield t ''x'') \<or> \<not> isNullish (tfield t ''y''))
      \<and> (case ttype t of
            None \<Rightarrow> True
          | Some s \<Rightarrow> s \<in> set [''scatter'', ''scattergl'', ''bar'', ''histogram'', ''area'',
                                ''line'', ''lines'']))"

definition fromCartesian ::
  "PlotlyFigureLike \<Rightarrow> PlotlyTrace \<Rightarrow> string \<Rightarrow> ExtractOptions \<Rightarrow> error + DataTable" where
  "fromCartesian fig t yNameFallback opts =
     bindE (toArray (tfield t ''x'')) (\<lambda>x.
     bindE (toArray (tfield t ''y'')) (\<lambda>y.
       let xName = orElse (xColumnName opts) (orElse (getXAxisTitle fig) ''x'');
           yName = orElse (tname t) (orElse (getYAxisTitle fig) yNameFallback)
       in if y \<noteq> [] \<and> isArr (elemAt y 0) then
            bindE (mapE (\<lambda>(i, sub).
                     bindE (toArray sub) (\<lambda>ys.
                       Inr (map (\<lambda>yy. (nullish (elemAt x i) (numOfNat i), yy)) ys)))
                   (enumerate 0 y)) (\<lambda>groups.
              let typeOr = (case ttype t of None \<Rightarrow> ''cartesian-long'' | Some s \<Rightarrow> s);
                  metaType = (case ttype t of None \<Rightarrow> ''cartesian'' | Some s \<Rightarrow> s)
              in Inr (makeTable (Some (orElse (tname t) typeOr))
                        [\<lparr>name = xName, vals = map fst (concat groups)\<rparr>,
                         \<lparr>name = yName, vals = map snd (concat groups)\<rparr>]
                        [(''traceType'', JStr metaType), (''longForm'', JBool True)]))
          else
            (let typeOr = (case ttype t of None \<Rightarrow> ''cartesian'' | Some s \<Rightarrow> s)
             in Inr (makeTable (Some (orElse (tname t) typeOr))
                       [\<lparr>name = xName, vals = x\<rparr>, \<lparr>name = yName, vals = y\<rparr>]
                       [(''traceType'', JStr typeOr)]))))"

section \<open>main extract\<close>

text \<open>
  The body of the loop over the traces: the table a trace contributes, if any.
  \<open>unnamedCounter\<close> is the counter's value when the trace is reached.
\<close>

definition someE :: "error + 'a \<Rightarrow> error + 'a option" where
  "someE m = bindE m (\<lambda>x. Inr (Some x))"

definition fallbackCols :: "PlotlyTrace \<Rightarrow> error + DataColumn list" where
  "fallbackCols t =
     bindE (mapE (\<lambda>key.
              let v = tfield t key
              in if \<not> isNullish v then bindE (toArray v) (\<lambda>a. Inr [\<lparr>name = key, vals = a\<rparr>])
                 else Inr [])
            [''x'', ''y'', ''z'', ''labels'', ''values'', ''locations'', ''open'', ''high'',
             ''low'', ''close'']) (\<lambda>cs. Inr (concat cs))"

definition traceTable ::
  "host \<Rightarrow> PlotlyFigureLike \<Rightarrow> ExtractOptions \<Rightarrow> nat \<Rightarrow> PlotlyTrace
     \<Rightarrow> error + DataTable option" where
  "traceTable h fig options unnamedCounter t =
     (let typ = toLowerCase (case ttype t of None \<Rightarrow> [] | Some s \<Rightarrow> s);
          fallbackY = (case unnamedYPrefix options of None \<Rightarrow> ''y'' | Some p \<Rightarrow> p)
                        @ ''_'' @ showNat unnamedCounter
      in if typ = ''table'' then someE (fromTableTrace h t)
         else if typ = ''heatmap'' \<or> typ = ''image'' \<or> typ = ''contour''
           then someE (fromHeatmapLike h fig t)
         else if typ = ''pie'' \<or> typ = ''sunburst'' \<or> typ = ''treemap'' \<or> typ = ''funnelarea''
           then someE (fromPieLike t)
         else if typ = ''ohlc'' \<or> typ = ''candlestick'' then someE (fromOhlcLike t)
         else if typ = ''waterfall'' then someE (fromWaterfall t)
         else if typ = ''choropleth'' then someE (fromChoropleth fig t)
         else if typ = ''box'' \<or> typ = ''violin'' then someE (fromBoxOrViolin fig t)
         else if isCartesianTrace t then someE (fromCartesian fig t fallbackY options)
         else bindE (fallbackCols t) (\<lambda>cols.
                if cols \<noteq> [] then
                  Inr (Some (makeTable (Some (orElse (tname t) (orElse (Some typ) ''trace''))) cols
                               [(''traceType'', JStr (orElse (Some typ) ''unknown''))]))
                else Inr None))"

fun traceLoop ::
  "host \<Rightarrow> PlotlyFigureLike \<Rightarrow> ExtractOptions \<Rightarrow> PlotlyTrace list \<Rightarrow> nat \<Rightarrow> DataTable list
     \<Rightarrow> error + DataTable list" where
  "traceLoop h fig options [] unnamedCounter perTrace = Inr perTrace"
| "traceLoop h fig options (t # ts) unnamedCounter perTrace =
     bindE (traceTable h fig options unnamedCounter t) (\<lambda>r.
       traceLoop h fig options ts (unnamedCounter + 1)
         (case r of None \<Rightarrow> perTrace | Some tab \<Rightarrow> perTrace @ [tab]))"

text \<open>The date coercion pass (the block under \<^verbatim>\<open>if (coerceDates)\<close>).\<close>

definition maybeDate :: "host \<Rightarrow> jsval \<Rightarrow> jsval" where
  "maybeDate h v =
     (case v of
        JUndefined \<Rightarrow> v
      | JNull \<Rightarrow> v
      | JDate d \<Rightarrow> v
      | JNum n \<Rightarrow>
          (case n of
             Fin r \<Rightarrow> if 10000000 < r \<and> r < 17000000000 then JDate (Some \<lfloor>r\<rfloor>) else v
           | _ \<Rightarrow> v)
      | JStr s \<Rightarrow> (case dateParse h s of Some ms \<Rightarrow> JDate (Some ms) | None \<Rightarrow> v)
      | _ \<Rightarrow> v)"

definition coerceDatesPass :: "host \<Rightarrow> string \<Rightarrow> DataTable list \<Rightarrow> DataTable list" where
  "coerceDatesPass h xName perTrace =
     map (\<lambda>tab. tab\<lparr>columns :=
            map (\<lambda>col. if name col = xName \<or> toLowerCase (name col) = ''x''
                        then col\<lparr>vals := map (maybeDate h) (vals col)\<rparr> else col)
              (columns tab)\<rparr>) perTrace"

text \<open>
  \<^verbatim>\<open>mergeCartesianTables\<close>.  \<^verbatim>\<open>toISOString\<close> raises \<^verbatim>\<open>RangeError\<close> on an invalid
  date.  \<open>merged\<close> is an object used as a dictionary: assigning to an existing key
  replaces its value in place, assigning to the key \<^verbatim>\<open>__proto__\<close> that is not an own
  property adds nothing, and \<^verbatim>\<open>Object.values\<close> lists the array-index keys first, in
  ascending order, then the other keys in the order they were added.
\<close>

definition key :: "host \<Rightarrow> jsval \<Rightarrow> error + string" where
  "key h v =
     (case v of
        JDate d \<Rightarrow> (case d of None \<Rightarrow> Inl RangeError | Some ms \<Rightarrow> Inr (toISOString h ms))
      | _ \<Rightarrow> Inr (jsString h v))"

definition findXCol :: "string \<Rightarrow> DataTable \<Rightarrow> DataColumn option" where
  "findXCol xName tab = find (\<lambda>c. name c = xName \<or> name c = ''x'') (columns tab)"

definition findYCol :: "string \<Rightarrow> DataTable \<Rightarrow> DataColumn option" where
  "findYCol xName tab =
     find (\<lambda>c. name c \<noteq> (case findXCol xName tab of None \<Rightarrow> xName | Some xCol \<Rightarrow> name xCol))
       (columns tab)"

fun collectKeys ::
  "host \<Rightarrow> jsval list \<Rightarrow> string set \<times> jsval list \<Rightarrow> error + string set \<times> jsval list" where
  "collectKeys h [] st = Inr st"
| "collectKeys h (v # vs) (seen, xValues) =
     bindE (key h v) (\<lambda>k.
       collectKeys h vs (if k \<in> seen then (seen, xValues) else (insert k seen, xValues @ [v])))"

fun collectTables ::
  "host \<Rightarrow> string \<Rightarrow> DataTable list \<Rightarrow> string set \<times> jsval list
     \<Rightarrow> error + string set \<times> jsval list" where
  "collectTables h xName [] st = Inr st"
| "collectTables h xName (tab # tabs) st =
     (case findXCol xName tab of
        None \<Rightarrow> collectTables h xName tabs st
      | Some xCol \<Rightarrow> bindE (collectKeys h (vals xCol) st) (collectTables h xName tabs))"

fun buildIdx ::
  "host \<Rightarrow> jsval list \<Rightarrow> nat \<Rightarrow> (string \<rightharpoonup> nat) \<Rightarrow> error + (string \<rightharpoonup> nat)" where
  "buildIdx h [] i idx = Inr idx"
| "buildIdx h (v # vs) i idx = bindE (key h v) (\<lambda>k. buildIdx h vs (i + 1) (idx(k \<mapsto> i)))"

definition seriesValues ::
  "host \<Rightarrow> jsval list \<Rightarrow> DataColumn \<Rightarrow> DataColumn \<Rightarrow> error + jsval list" where
  "seriesValues h xValues xCol yCol =
     bindE (buildIdx h (vals xCol) 0 Map.empty) (\<lambda>idx.
       mapE (\<lambda>vx. bindE (key h vx) (\<lambda>k.
               Inr (case idx k of
                      None \<Rightarrow> JNull
                    | Some li \<Rightarrow> nullish (elemAt (vals yCol) li) JNull))) xValues)"

definition digitsVal :: "string \<Rightarrow> nat" where
  "digitsVal s = foldl (\<lambda>acc c. 10 * acc + (of_char c - 48)) 0 s"

definition isArrayIndex :: "string \<Rightarrow> bool" where
  "isArrayIndex s =
     (s \<noteq> [] \<and> list_all (\<lambda>c. c \<in> set ''0123456789'') s \<and> (hd s \<noteq> CHR ''0'' \<or> s = ''0'')
      \<and> digitsVal s \<le> 4294967294)"

definition objectSet :: "(string \<times> 'a) list \<Rightarrow> string \<Rightarrow> 'a \<Rightarrow> (string \<times> 'a) list" where
  "objectSet kvs k v =
     (if k \<in> fst ` set kvs then map (\<lambda>kv. if fst kv = k then (k, v) else kv) kvs
      else if k = ''__proto__'' then kvs
      else kvs @ [(k, v)])"

definition objectValues :: "(string \<times> 'a) list \<Rightarrow> 'a list" where
  "objectValues kvs =
     map snd (sort_key (\<lambda>kv. digitsVal (fst kv)) (filter (\<lambda>kv. isArrayIndex (fst kv)) kvs)
              @ filter (\<lambda>kv. \<not> isArrayIndex (fst kv)) kvs)"

fun mergeSeries ::
  "host \<Rightarrow> string \<Rightarrow> jsval list \<Rightarrow> DataTable list \<Rightarrow> (string \<times> DataColumn) list
     \<Rightarrow> error + (string \<times> DataColumn) list" where
  "mergeSeries h xName xValues [] merged = Inr merged"
| "mergeSeries h xName xValues (tab # tabs) merged =
     (case (findXCol xName tab, findYCol xName tab) of
        (Some xCol, Some yCol) \<Rightarrow>
          bindE (seriesValues h xValues xCol yCol) (\<lambda>out.
            mergeSeries h xName xValues tabs
              (objectSet merged (name yCol) \<lparr>name = name yCol, vals = out\<rparr>))
      | _ \<Rightarrow> mergeSeries h xName xValues tabs merged)"

definition mergeCartesianTables :: "host \<Rightarrow> DataTable list \<Rightarrow> string \<Rightarrow> error + DataTable" where
  "mergeCartesianTables h tables xName =
     bindE (collectTables h xName tables ({}, [])) (\<lambda>(seen, xValues).
     bindE (mergeSeries h xName xValues tables [(xName, \<lparr>name = xName, vals = xValues\<rparr>)])
       (\<lambda>merged.
         Inr (makeTable (Some ''merged_cartesian'') (objectValues merged)
                [(''merged'', JBool True)])))"

text \<open>
  \<^verbatim>\<open>extractTables\<close>: the loop over the traces, the date coercion block, and the block
  that merges the cartesian tables (\<open>mergeStep\<close>).  The code keeps in \<open>other\<close> the tables
  that are not, as objects, among \<open>cart\<close>; a table equal to one of \<open>cart\<close> passes the
  same test on its columns, so this is the same as not being among them as values.
\<close>

definition mergeStep :: "host \<Rightarrow> string \<Rightarrow> DataTable list \<Rightarrow> error + DataTable list" where
  "mergeStep h xName perTrace =
     (let cart = filter (\<lambda>t. list_ex (\<lambda>c. name c = xName \<or> name c = ''x'') (columns t)
                              \<and> 2 \<le> length (columns t)) perTrace;
          other = filter (\<lambda>t. t \<notin> set cart) perTrace
      in if cart = [] then Inr perTrace
         else bindE (mergeCartesianTables h cart xName) (\<lambda>m. Inr (m # other)))"

definition extractTables ::
  "host \<Rightarrow> PlotlyFigureLike \<Rightarrow> ExtractOptions \<Rightarrow> error + DataTable list" where
  "extractTables h fig options =
     bindE (traceLoop h fig options (case data fig of None \<Rightarrow> [] | Some ts \<Rightarrow> ts) 1 [])
       (\<lambda>perTrace0.
         let xName = orElse (xColumnName options) (orElse (getXAxisTitle fig) ''x'');
             perTrace = (if coerceDates options = Some True
                         then coerceDatesPass h xName perTrace0 else perTrace0)
         in if mergeCartesian options \<noteq> Some True then Inr perTrace
            else mergeStep h xName perTrace)"

section \<open>Notions used in the statements\<close>

text \<open>The eight dtype tags of the decoder's \<^verbatim>\<open>switch\<close> and the element width of each.\<close>

definition supportedDtypes :: "string list" where
  "supportedDtypes = [''i1'', ''u1'', ''i2'', ''u2'', ''i4'', ''u4'', ''f4'', ''f8'']"

definition dtypeWidth :: "string \<Rightarrow> nat" where
  "dtypeWidth dt =
     (if dt = ''i1'' \<or> dt = ''u1'' then 1
      else if dt = ''i2'' \<or> dt = ''u2'' then 2
      else if dt = ''i4'' \<or> dt = ''u4'' \<or> dt = ''f4'' then 4
      else if dt = ''f8'' then 8
      else 0)"

text \<open>
  The padding invariant of a table: every column is as long as the longest one
  (\<open>maxLen\<close> is the \<^verbatim>\<open>Math.max(0, ...)\<close> of \<^verbatim>\<open>padColumnsToSameLength\<close>).
\<close>

definition maxLen :: "DataColumn list \<Rightarrow> nat" where
  "maxLen cols = foldr (\<lambda>c m. max (length (vals c)) m) cols 0"

definition paddedTable :: "DataTable \<Rightarrow> bool" where
  "paddedTable tab = list_all (\<lambda>c. length (vals c) = maxLen (columns tab)) (columns tab)"


definition catOptions :: "'a option list \<Rightarrow> 'a list" where
  "catOptions rs = concat (map (\<lambda>r. case r of None \<Rightarrow> [] | Some x \<Rightarrow> [x]) rs)"

subsection \<open>Concrete inputs\<close>

text \<open>
  A host for the evaluations at concrete inputs.  None of those inputs reaches a host
  function: each evaluation is first proved for an arbitrary host.
\<close>

definition exampleHost :: host where
  "exampleHost = \<lparr>numberToString = (\<lambda>r. []), dateToString = (\<lambda>ms. []),
                   toISOString = (\<lambda>ms. []), dateParse = (\<lambda>s. None),
                   stringToNumber = (\<lambda>s. NaN), roundToDouble = (\<lambda>r. Fin r)\<rparr>"

definition trace :: "string option \<Rightarrow> string option \<Rightarrow> (string \<times> jsval) list \<Rightarrow> PlotlyTrace" where
  "trace ty nm ps =
     \<lparr>ttype = ty, tname = nm, coloraxis = None, colorbarTitleText = None, props = ps\<rparr>"

definition figureOf :: "PlotlyTrace list \<Rightarrow> PlotlyFigureLike" where
  "figureOf ts = \<lparr>data = Some ts, layout = JUndefined\<rparr>"

definition optionsOf :: "bool \<Rightarrow> bool \<Rightarrow> ExtractOptions" where
  "optionsOf mrg dates =
     \<lparr>mergeCartesian = Some mrg, unnamedYPrefix = None, coerceDates = Some dates,
      xColumnName = None\<rparr>"

definition nums :: "int list \<Rightarrow> jsval" where
  "nums xs = JArr (map (\<lambda>i. JNum (Fin (of_int i))) xs)"

definition badArray :: jsval where
  "badArray = JObj [(''dtype'', JStr ''i8''), (''bdata'', JStr ''AQID'')]"

definition pieTrace :: PlotlyTrace where
  "pieTrace = trace (Some ''pie'') None [(''labels'', JArr [JStr ''a'']), (''values'', nums [1])]"

definition scatterTrace :: PlotlyTrace where
  "scatterTrace = trace (Some ''scatter'') None [(''x'', nums [1, 2]), (''y'', nums [3, 4])]"

definition pieTable :: DataTable where
  "pieTable = \<lparr>title = Some ''pie'',
       columns = [\<lparr>name = ''label'', vals = [JStr ''a'']\<rparr>,
                  \<lparr>name = ''value'', vals = [JNum (Fin 1)]\<rparr>],
       meta = [(''traceType'', JStr ''pie'')]\<rparr>"

definition scatterTable :: "string \<Rightarrow> DataTable" where
  "scatterTable yName = \<lparr>title = Some ''scatter'',
       columns = [\<lparr>name = ''x'', vals = [JNum (Fin 1), JNum (Fin 2)]\<rparr>,
                  \<lparr>name = yName, vals = [JNum (Fin 3), JNum (Fin 4)]\<rparr>],
       meta = [(''traceType'', JStr ''scatter'')]\<rparr>"


definition shortTrace :: PlotlyTrace where
  "shortTrace = trace (Some ''scatter'') (Some ''A'') [(''x'', nums [1, 2, 3]), (''y'', nums [10])]"

definition shortTable :: DataTable where
  "shortTable = \<lparr>title = Some ''A'',
       columns = [\<lparr>name = ''x'', vals = [JNum (Fin 1), JNum (Fin 2), JNum (Fin 3)]\<rparr>,
                  \<lparr>name = ''A'', vals = [JNum (Fin 10), JNull, JNull]\<rparr>],
       meta = [(''traceType'', JStr ''scatter'')]\<rparr>"

definition shortMerged :: DataTable where
  "shortMerged = \<lparr>title = Some ''merged_cartesian'',
       columns = [\<lparr>name = ''x'', vals = [JNum (Fin 1), JNum (Fin 2), JNum (Fin 3)]\<rparr>,
                  \<lparr>name = ''A'', vals = [JNum (Fin 10), JNull, JNull]\<rparr>],
       meta = [(''merged'', JBool True)]\<rparr>"

subsection \<open>The shape resolver as the specification words it\<close>

text \<open>
  The resolver of the specification, for a decoded \<open>flat\<close> array, the parsed shape and
  the numbers of x and y labels: an explicit shape of rank 2 is used; otherwise the label
  counts when both are non-zero; otherwise a square for a perfect square; otherwise one
  row.  The matrix is transposed when the shape disagrees with the provided label counts
  and its swap agrees.
\<close>

definition claimedZ :: "host \<Rightarrow> number list option \<Rightarrow> jsval list \<Rightarrow> nat \<Rightarrow> nat \<Rightarrow> error + jsval list list" where
  "claimedZ h shp flat xlen ylen =
     (let shape =
            (case shp of
               Some [s0, s1] \<Rightarrow> Some (s0, s1)
             | _ \<Rightarrow>
                 if xlen \<noteq> 0 \<and> ylen \<noteq> 0 then Some (natNum ylen, natNum xlen)
                 else (case sqrtInt (length flat) of
                         Some n \<Rightarrow> Some (natNum n, natNum n)
                       | None \<Rightarrow> None))
      in case shape of
           None \<Rightarrow> Inr [flat]
         | Some (s0, s1) \<Rightarrow>
             bindE (reshape2D h flat s0 s1) (\<lambda>Z.
               if xlen \<noteq> 0 \<and> ylen \<noteq> 0 \<and> (s0 \<noteq> natNum ylen \<or> s1 \<noteq> natNum xlen)
                  \<and> s1 = natNum ylen \<and> s0 = natNum xlen
               then Inr (transposeM Z) else Inr Z))"

text \<open>Binary-encoded arrays of dtype \<^verbatim>\<open>u1\<close> and inputs built from them.\<close>

definition u1Array :: "string \<Rightarrow> jsval \<Rightarrow> jsval" where
  "u1Array b shp = JObj [(''dtype'', JStr ''u1''), (''bdata'', JStr b), (''shape'', shp)]"

definition cells :: "int list \<Rightarrow> jsval list" where
  "cells xs = map (\<lambda>i. JNum (Fin (of_int i))) xs"

definition labelsAB :: "jsval list" where "labelsAB = [JStr ''a'', JStr ''b'']"

definition labelsPQR :: "jsval list" where "labelsPQR = [JStr ''p'', JStr ''q'', JStr ''r'']"

definition z23 :: jsval where
  "z23 = u1Array ''AQIDBAUG'' (JArr [JNum (Fin 2), JNum (Fin 3)])"

definition z4 :: jsval where
  "z4 = u1Array ''AQIDBA=='' (JArr [JNum (Fin 4)])"

definition zu :: jsval where
  "zu = u1Array ''AQIDBA=='' JUndefined"


subsection \<open>The merge as the specification words it\<close>

text \<open>
  The text under which a key value is looked up: the ISO string of a valid date, the
  string conversion of anything else.  An invalid date has no such text.
\<close>

definition keyText :: "host \<Rightarrow> jsval \<Rightarrow> string" where
  "keyText h v = (case v of JDate (Some ms) \<Rightarrow> toISOString h ms | _ \<Rightarrow> jsString h v)"

text \<open>
  The values of a list whose key has not occurred before them, in the order of the list;
  and the row at which a key is found in a list, the last one when there are several.
\<close>

definition firstSeenBy :: "('a \<Rightarrow> 'k) \<Rightarrow> 'a list \<Rightarrow> 'a list" where
  "firstSeenBy f xs =
     map (\<lambda>i. xs ! i) (filter (\<lambda>i. f (xs ! i) \<notin> f ` set (take i xs)) [0..<length xs])"

definition rowOfKey :: "('a \<Rightarrow> 'k) \<Rightarrow> 'a list \<Rightarrow> 'k \<Rightarrow> nat option" where
  "rowOfKey f xs k =
     (let rows = filter (\<lambda>i. f (xs ! i) = k) [0..<length xs]
      in if rows = [] then None else Some (last rows))"



definition seriesColumn :: "host \<Rightarrow> jsval list \<Rightarrow> DataColumn \<Rightarrow> DataColumn \<Rightarrow> DataColumn" where
  "seriesColumn h xv xCol yCol =
     \<lparr>name = name yCol,
      vals = map (\<lambda>vx. case rowOfKey (keyText h) (vals xCol) (keyText h vx) of
                         None \<Rightarrow> JNull
                       | Some li \<Rightarrow> nullish (elemAt (vals yCol) li) JNull) xv\<rparr>"













section \<open>Basic facts\<close>

lemma bindE_Inr [simp]: "bindE (Inr x) f = f x"
  by (simp add: bindE_def)

lemma bindE_Inl [simp]: "bindE (Inl e) f = Inl e"
  by (simp add: bindE_def)

lemma length_typedView [simp]: "length (typedView k n bytes) = n"
  by (simp add: typedView_def)

lemma base64ToBytes_atob: "base64ToBytes b = atob b"
  by (cases "atob b") (simp_all add: base64ToBytes_def map_nth)

lemmas atob_eval = atob_def stripPadding_def isAsciiWhitespace_def b64index_def

lemma maybeDate_idem: "maybeDate h (maybeDate h v) = maybeDate h v"
  by (auto simp add: maybeDate_def split: jsval.splits number.splits option.splits)

lemma bindE_eq_Inr: "bindE m f = Inr y \<longleftrightarrow> (\<exists>x. m = Inr x \<and> f x = Inr y)"
  by (cases m) simp_all

lemma bindE_eq_Inl: "bindE m f = Inl e \<longleftrightarrow> m = Inl e \<or> (\<exists>x. m = Inr x \<and> f x = Inl e)"
  by (cases m) simp_all

lemma someE_eq_Inr: "someE m = Inr r \<longleftrightarrow> (\<exists>x. m = Inr x \<and> r = Some x)"
  by (cases m) (auto simp add: someE_def)

lemma maxLen_ge: "c \<in> set cols \<Longrightarrow> length (vals c) \<le> maxLen cols"
  by (induction cols) (auto simp add: maxLen_def)

lemma maxLen_Cons: "maxLen (c # cols) = max (length (vals c)) (maxLen cols)"
  by (simp add: maxLen_def)

lemma maxLen_const:
  "cols \<noteq> [] \<Longrightarrow> \<forall>c\<in>set cols. length (vals c) = n \<Longrightarrow> maxLen cols = n"
proof (induction cols)
  case Nil
  then show ?case by simp
next
  case (Cons c cs)
  show ?case
  proof (cases "cs = []")
    case True
    with Cons.prems show ?thesis by (simp add: maxLen_def)
  next
    case False
    with Cons have "maxLen cs = n" by simp
    with Cons.prems show ?thesis by (simp add: maxLen_Cons)
  qed
qed

lemma maxLen_Nil [simp]: "maxLen [] = 0"
  by (simp add: maxLen_def)

lemma pad_nth:
  assumes "i < length cols"
  shows "padColumnsToSameLength cols ! i
         = (cols ! i)\<lparr>vals := vals (cols ! i)
                              @ replicate (maxLen cols - length (vals (cols ! i))) JNull\<rparr>"
  using assms by (simp add: padColumnsToSameLength_def maxLen_def Let_def)

lemma length_pad [simp]: "length (padColumnsToSameLength cols) = length cols"
  by (simp add: padColumnsToSameLength_def Let_def)

lemma pad_lengths:
  "c \<in> set (padColumnsToSameLength cols) \<Longrightarrow> length (vals c) = maxLen cols"
proof -
  assume "c \<in> set (padColumnsToSameLength cols)"
  then obtain c0 where c0: "c0 \<in> set cols"
    and c: "c = (if length (vals c0) = maxLen cols then c0
                 else c0\<lparr>vals := vals c0 @ replicate (maxLen cols - length (vals c0)) JNull\<rparr>)"
    by (auto simp add: padColumnsToSameLength_def maxLen_def Let_def)
  from maxLen_ge [OF c0] c show ?thesis by auto
qed

lemma paddedTable_makeTable [simp]: "paddedTable (makeTable ttl cols m)"
proof (cases "cols = []")
  case True
  then show ?thesis
    by (simp add: paddedTable_def makeTable_def padColumnsToSameLength_def)
next
  case False
  then have ne: "padColumnsToSameLength cols \<noteq> []"
    by (simp add: padColumnsToSameLength_def Let_def)
  have "maxLen (padColumnsToSameLength cols) = maxLen cols"
    by (rule maxLen_const [OF ne]) (simp add: pad_lengths)
  then show ?thesis
    by (simp add: paddedTable_def makeTable_def list_all_iff pad_lengths)
qed

lemma fromTableTrace_padded: "fromTableTrace h t = Inr tab \<Longrightarrow> paddedTable tab"
  by (auto simp add: fromTableTrace_def Let_def bindE_eq_Inr)

lemma fromHeatmapLike_padded: "fromHeatmapLike h fig t = Inr tab \<Longrightarrow> paddedTable tab"
  by (auto simp add: fromHeatmapLike_def Let_def bindE_eq_Inr)

lemma fromPieLike_padded: "fromPieLike t = Inr tab \<Longrightarrow> paddedTable tab"
  by (auto simp add: fromPieLike_def Let_def bindE_eq_Inr)

lemma fromOhlcLike_padded: "fromOhlcLike t = Inr tab \<Longrightarrow> paddedTable tab"
  by (auto simp add: fromOhlcLike_def Let_def bindE_eq_Inr)

lemma fromWaterfall_padded: "fromWaterfall t = Inr tab \<Longrightarrow> paddedTable tab"
  by (auto simp add: fromWaterfall_def Let_def bindE_eq_Inr)

lemma fromChoropleth_padded: "fromChoropleth fig t = Inr tab \<Longrightarrow> paddedTable tab"
  by (auto simp add: fromChoropleth_def Let_def bindE_eq_Inr)

lemma fromBoxOrViolin_padded: "fromBoxOrViolin fig t = Inr tab \<Longrightarrow> paddedTable tab"
  by (auto simp add: fromBoxOrViolin_def Let_def bindE_eq_Inr)

lemma fromCartesian_padded: "fromCartesian fig t fb opts = Inr tab \<Longrightarrow> paddedTable tab"
  by (auto simp add: fromCartesian_def Let_def bindE_eq_Inr split: if_splits)

lemmas converters_padded = fromTableTrace_padded fromHeatmapLike_padded fromPieLike_padded
  fromOhlcLike_padded fromWaterfall_padded fromChoropleth_padded fromBoxOrViolin_padded
  fromCartesian_padded

lemma traceTable_padded:
  assumes "traceTable h fig options n t = Inr (Some tab)"
  shows "paddedTable tab"
proof -
  let ?lty = "toLowerCase (case ttype t of None \<Rightarrow> [] | Some s \<Rightarrow> s)"
  from assms consider
      (conv) m where "someE m = Inr (Some tab)" "\<And>x. m = Inr x \<Longrightarrow> paddedTable x"
    | (fallback) cols where "tab = makeTable (Some (orElse (tname t) (orElse (Some ?lty) ''trace''))) cols
                               [(''traceType'', JStr (orElse (Some ?lty) ''unknown''))]"
    unfolding traceTable_def Let_def
    by (simp only: bindE_eq_Inr split: if_splits) (auto dest: converters_padded)
  then show ?thesis
    by cases (auto simp add: someE_eq_Inr)
qed

lemma catOptions_simps [simp]:
  "catOptions [] = []"
  "catOptions (None # rs) = catOptions rs"
  "catOptions (Some x # rs) = x # catOptions rs"
  by (simp_all add: catOptions_def)

lemma catOptions_map_Some [simp]: "catOptions (map Some xs) = xs"
  by (induction xs) simp_all

lemma set_catOptions: "x \<in> set (catOptions rs) \<longleftrightarrow> Some x \<in> set rs"
  by (induction rs) (auto simp add: catOptions_def split: option.splits)

lemma traceLoop_Inr:
  "traceLoop h fig opts ts n acc = Inr out \<Longrightarrow>
   \<exists>rs. length rs = length ts
       \<and> (\<forall>i<length ts. traceTable h fig opts (n + i) (ts ! i) = Inr (rs ! i))
       \<and> out = acc @ catOptions rs"
proof (induction ts arbitrary: n acc)
  case Nil
  then show ?case by simp
next
  case (Cons t ts)
  from Cons.prems obtain r where r: "traceTable h fig opts n t = Inr r"
    and rest: "traceLoop h fig opts ts (n + 1)
                (case r of None \<Rightarrow> acc | Some tab \<Rightarrow> acc @ [tab]) = Inr out"
    by (auto simp add: bindE_eq_Inr)
  from Cons.IH [OF rest] obtain rs where len: "length rs = length ts"
    and each: "\<forall>i<length ts. traceTable h fig opts (n + 1 + i) (ts ! i) = Inr (rs ! i)"
    and out: "out = (case r of None \<Rightarrow> acc | Some tab \<Rightarrow> acc @ [tab]) @ catOptions rs"
    by blast
  have "\<forall>i<length (t # ts). traceTable h fig opts (n + i) ((t # ts) ! i) = Inr ((r # rs) ! i)"
  proof (intro allI impI)
    fix i assume "i < length (t # ts)"
    then show "traceTable h fig opts (n + i) ((t # ts) ! i) = Inr ((r # rs) ! i)"
      using r each by (cases i) simp_all
  qed
  moreover have "out = acc @ catOptions (r # rs)"
    using out by (cases r) simp_all
  ultimately show ?case
    using len by (intro exI [of _ "r # rs"]) simp
qed


lemma traceLoop_Inl:
  "i < length ts \<Longrightarrow> traceTable h fig opts (n + i) (ts ! i) = Inl e \<Longrightarrow>
   \<forall>j<i. \<exists>r. traceTable h fig opts (n + j) (ts ! j) = Inr r \<Longrightarrow>
   traceLoop h fig opts ts n acc = Inl e"
proof (induction ts arbitrary: n acc i)
  case Nil
  then show ?case by simp
next
  case (Cons t ts)
  show ?case
  proof (cases i)
    case 0
    with Cons.prems show ?thesis by simp
  next
    case (Suc k)
    with Cons.prems(3) obtain r where r: "traceTable h fig opts n t = Inr r"
      by force
    from Suc Cons.prems have k: "k < length ts"
      and fail: "traceTable h fig opts (n + 1 + k) (ts ! k) = Inl e"
      by simp_all
    have before: "\<forall>j<k. \<exists>r. traceTable h fig opts (n + 1 + j) (ts ! j) = Inr r"
    proof (intro allI impI)
      fix j assume "j < k"
      then have "Suc j < i" using Suc by simp
      with Cons.prems(3) obtain r' where
        "traceTable h fig opts (n + Suc j) ((t # ts) ! Suc j) = Inr r'" by blast
      then show "\<exists>r. traceTable h fig opts (n + 1 + j) (ts ! j) = Inr r" by simp
    qed
    from Cons.IH [OF k fail before] r show ?thesis by simp
  qed
qed

lemma maxLen_map_same_length:
  "\<forall>c\<in>set cols. length (vals (f c)) = length (vals c) \<Longrightarrow> maxLen (map f cols) = maxLen cols"
  by (induction cols) (simp_all add: maxLen_Cons)

lemma coerce_padded:
  assumes "paddedTable tab"
  shows "paddedTable (tab\<lparr>columns :=
            map (\<lambda>col. if name col = xName \<or> toLowerCase (name col) = ''x''
                        then col\<lparr>vals := map (maybeDate h) (vals col)\<rparr> else col)
              (columns tab)\<rparr>)"
proof -
  let ?f = "\<lambda>col. if name col = xName \<or> toLowerCase (name col) = ''x''
                   then col\<lparr>vals := map (maybeDate h) (vals col)\<rparr> else col"
  have len: "length (vals (?f c)) = length (vals c)" for c by simp
  have m: "maxLen (map ?f (columns tab)) = maxLen (columns tab)"
    by (rule maxLen_map_same_length) simp
  have "length (vals c') = maxLen (columns tab)" if "c' \<in> set (map ?f (columns tab))" for c'
  proof -
    from that obtain c where c: "c \<in> set (columns tab)" and c': "c' = ?f c" by auto
    from assms c have "length (vals c) = maxLen (columns tab)"
      by (simp add: paddedTable_def list_all_iff)
    with len [of c] c' show ?thesis by simp
  qed
  with m show ?thesis
    by (simp add: paddedTable_def list_all_iff)
qed

lemma coerceDatesPass_padded:
  "list_all paddedTable tabs \<Longrightarrow> list_all paddedTable (coerceDatesPass h xName tabs)"
  by (simp add: coerceDatesPass_def list_all_iff coerce_padded)

lemma mergeCartesianTables_padded:
  "mergeCartesianTables h tables xName = Inr m \<Longrightarrow> paddedTable m"
  by (auto simp add: mergeCartesianTables_def bindE_eq_Inr split: prod.splits)

lemma traceLoop_padded:
  assumes "traceLoop h fig opts ts n [] = Inr out"
  shows "list_all paddedTable out"
proof -
  from traceLoop_Inr [OF assms] obtain rs where len: "length rs = length ts"
    and each: "\<forall>i<length ts. traceTable h fig opts (n + i) (ts ! i) = Inr (rs ! i)"
    and out: "out = catOptions rs" by auto
  have "paddedTable tab" if "tab \<in> set out" for tab
  proof -
    from that out have "Some tab \<in> set rs" by (simp add: set_catOptions)
    then obtain i where "i < length rs" "rs ! i = Some tab"
      by (auto simp add: in_set_conv_nth)
    with len each have "traceTable h fig opts (n + i) (ts ! i) = Inr (Some tab)" by simp
    then show ?thesis by (rule traceTable_padded)
  qed
  then show ?thesis by (simp add: list_all_iff)
qed

lemma mergeStep_padded:
  assumes "mergeStep h xn per = Inr tabs" and "list_all paddedTable per"
  shows "list_all paddedTable tabs"
proof -
  define cart where "cart = filter (\<lambda>t. list_ex (\<lambda>c. name c = xn \<or> name c = ''x'') (columns t)
                                       \<and> 2 \<le> length (columns t)) per"
  show ?thesis
  proof (cases "cart = []")
    case True
    with assms show ?thesis by (simp add: mergeStep_def cart_def)
  next
    case False
    with assms(1) obtain m where m: "mergeCartesianTables h cart xn = Inr m"
      and tabs: "tabs = m # filter (\<lambda>t. t \<notin> set cart) per"
      by (auto simp add: mergeStep_def Let_def cart_def bindE_eq_Inr)
    from assms(2) have "list_all paddedTable (filter (\<lambda>t. t \<notin> set cart) per)"
      by (simp add: list_all_iff)
    with mergeCartesianTables_padded [OF m] tabs show ?thesis by simp
  qed
qed

lemma extractTables_padded:
  assumes "extractTables h fig options = Inr tabs"
  shows "list_all paddedTable tabs"
proof -
  let ?xn = "orElse (xColumnName options) (orElse (getXAxisTitle fig) ''x'')"
  from assms obtain raw where
    raw: "traceLoop h fig options (case data fig of None \<Rightarrow> [] | Some ts \<Rightarrow> ts) 1 [] = Inr raw"
    and fin: "(let xName = ?xn;
                   perTrace = (if coerceDates options = Some True
                               then coerceDatesPass h xName raw else raw)
               in if mergeCartesian options \<noteq> Some True then Inr perTrace
                  else mergeStep h xName perTrace) = Inr tabs"
    unfolding extractTables_def bindE_eq_Inr by blast
  define per where "per = (if coerceDates options = Some True
                            then coerceDatesPass h ?xn raw else raw)"
  have per: "list_all paddedTable per"
    using traceLoop_padded [OF raw] by (simp add: per_def coerceDatesPass_padded)
  from fin have "tabs = per \<or> mergeStep h ?xn per = Inr tabs"
    by (auto simp add: Let_def per_def split: if_splits)
  with per show ?thesis
    by (auto dest: mergeStep_padded)
qed

lemmas value_eval = isNullish_def nullish_def orElse_def elemAt_def isArr_def numOfNat_def
  tfield_def trace_def figureOf_def optionsOf_def nums_def toLowerCase_def showNat.simps
  isNdarrayLike_def asNdarray_def toArray_def
  getXAxisTitle_def getYAxisTitle_def axisTitle_def colorTitleFromFig_def
  makeTable_def padColumnsToSameLength_def someE_def Let_def


lemma toArray_unsupported:
  assumes "isNdarrayLike v" and "dtype (asNdarray v) \<notin> set supportedDtypes"
    and "base64ToBytes (bdata (asNdarray v)) = Inr bytes"
  shows "toArray v = Inl (UnsupportedDtype (dtype (asNdarray v)))"
proof -
  from assms(1) have "\<not> isNullish v"
    by (auto simp add: isNullish_def isNdarrayLike_def)
  with assms show ?thesis
    by (simp add: toArray_def decodeNdarray_def supportedDtypes_def)
qed

lemma extractTables_Inl:
  assumes "data fig = Some ts" and "i < length ts"
    and "traceTable h fig options (Suc i) (ts ! i) = Inl e"
    and "\<forall>j<i. \<exists>r. traceTable h fig options (Suc j) (ts ! j) = Inr r"
  shows "extractTables h fig options = Inl e"
proof -
  have "traceLoop h fig options ts 1 [] = Inl e"
    by (rule traceLoop_Inl [OF assms(2)]) (use assms in simp_all)
  with assms(1) show ?thesis
    by (simp add: extractTables_def)
qed

lemma b64_AQID: "base64ToBytes ''AQID'' = Inr [1, 2, 3]"
  by (simp add: base64ToBytes_atob atob_eval)

lemma badArray_facts:
  "isNdarrayLike badArray" "asNdarray badArray = \<lparr>dtype = ''i8'', bdata = ''AQID''\<rparr>"
  by (simp_all add: isNdarrayLike_def asNdarray_def badArray_def)

lemma toArray_badArray: "toArray badArray = Inl (UnsupportedDtype ''i8'')"
  using toArray_unsupported [OF badArray_facts(1), of "[1, 2, 3]"]
  by (simp add: badArray_facts supportedDtypes_def b64_AQID)

lemma traceTable_bad:
  "traceTable h (figureOf ts) (optionsOf mrg dts) n (trace (Some ''scatter'') None [(''x'', badArray)])
   = Inl (UnsupportedDtype ''i8'')"
proof -
  have "tfield (trace (Some ''scatter'') None [(''x'', badArray)]) ''x'' = badArray"
    by (simp add: tfield_def trace_def)
  moreover have "\<not> isNullish badArray" by (simp add: isNullish_def badArray_def)
  ultimately show ?thesis
    by (simp add: traceTable_def isCartesianTrace_def fromCartesian_def toArray_badArray someE_def
          toLowerCase_def Let_def trace_def)
qed

lemma traceTable_pie:
  "traceTable h (figureOf ts) (optionsOf mrg dts) n pieTrace = Inr (Some pieTable)"
  by (simp add: traceTable_def fromPieLike_def pieTrace_def pieTable_def value_eval)

lemma traceTable_scatter:
  "traceTable h (figureOf ts) (optionsOf mrg dts) n scatterTrace
   = Inr (Some (scatterTable (''y_'' @ showNat n)))"
  by (simp add: traceTable_def isCartesianTrace_def fromCartesian_def scatterTrace_def
        scatterTable_def value_eval del: showNat.simps)

lemma showNat_2: "showNat (Suc (Suc 0)) = ''2''"
  by (simp add: showNat.simps)

lemma extract_pie_scatter:
  "extractTables h (figureOf [pieTrace, scatterTrace]) (optionsOf False False)
   = Inr [pieTable, scatterTable ''y_2'']"
  using traceTable_pie [of h "[pieTrace, scatterTrace]" False False]
    traceTable_scatter [of h "[pieTrace, scatterTrace]" False False]
  by (simp add: extractTables_def figureOf_def optionsOf_def showNat_2)





lemmas merge_eval = mergeCartesianTables_def findXCol_def findYCol_def key_def numString_def
  showInt_def showNat.simps seriesValues_def objectSet_def objectValues_def isArrayIndex_def
  digitsVal_def makeTable_def padColumnsToSameLength_def nullish_def isNullish_def elemAt_def
  Let_def

lemma traceTable_short:
  "traceTable h (figureOf ts) (optionsOf mrg dts) n shortTrace = Inr (Some shortTable)"
  by (simp add: traceTable_def isCartesianTrace_def fromCartesian_def shortTrace_def
        shortTable_def value_eval del: showNat.simps)

lemma extract_short:
  "extractTables h (figureOf [shortTrace]) (optionsOf False False) = Inr [shortTable]"
  using traceTable_short [of h "[shortTrace]" False False]
  by (simp add: extractTables_def figureOf_def optionsOf_def)

lemma merge_short: "mergeCartesianTables h [shortTable] ''x'' = Inr shortMerged"
  by (simp add: merge_eval shortTable_def shortMerged_def)

section \<open>The binary array decoder\<close>

text \<open>
  C10, as amended.  For each of the eight supported dtypes, decoding fails exactly when
  the base64 step fails, with its \<^verbatim>\<open>InvalidCharacterError\<close> (a payload whose length,
  after whitespace and padding are dropped, is 1 modulo 4, or a character outside the
  alphabet), and never because of the number of decoded bytes: when the payload decodes
  to \<open>bytes\<close>, the result has \<open>length bytes div width\<close> elements, so the bytes after
  the last whole element are dropped without an error.
\<close>

theorem decodeNdarray_truncates:
  assumes "dt \<in> set supportedDtypes"
  shows "(base64ToBytes b = Inr bytes \<longrightarrow>
            (\<exists>vs. decodeNdarray \<lparr>dtype = dt, bdata = b\<rparr> = Inr vs
                  \<and> length vs = length bytes div dtypeWidth dt))
       \<and> (base64ToBytes b = Inl e \<longrightarrow>
            e = InvalidCharacterError \<and> decodeNdarray \<lparr>dtype = dt, bdata = b\<rparr> = Inl e)
       \<and> ((\<exists>e. decodeNdarray \<lparr>dtype = dt, bdata = b\<rparr> = Inl e)
            \<longleftrightarrow> (let s = stripPadding (filter (\<lambda>c. \<not> isAsciiWhitespace c) b)
                 in length s mod 4 = 1 \<or> list_ex (\<lambda>c. b64index c = None) s))"
proof (intro conjI impI)
  assume "base64ToBytes b = Inr bytes"
  with assms show "\<exists>vs. decodeNdarray \<lparr>dtype = dt, bdata = b\<rparr> = Inr vs
                        \<and> length vs = length bytes div dtypeWidth dt"
    by (auto simp add: supportedDtypes_def decodeNdarray_def dtypeWidth_def)
next
  assume "base64ToBytes b = Inl e"
  then show "e = InvalidCharacterError"
    by (simp add: base64ToBytes_atob atob_def Let_def split: if_splits)
next
  assume "base64ToBytes b = Inl e"
  then show "decodeNdarray \<lparr>dtype = dt, bdata = b\<rparr> = Inl e"
    by (simp add: decodeNdarray_def)
next
  have "(\<exists>e. decodeNdarray \<lparr>dtype = dt, bdata = b\<rparr> = Inl e) \<longleftrightarrow> (\<exists>e. atob b = Inl e)"
    using assms
    by (cases "atob b")
       (auto simp add: supportedDtypes_def decodeNdarray_def base64ToBytes_atob)
  then show "(\<exists>e. decodeNdarray \<lparr>dtype = dt, bdata = b\<rparr> = Inl e)
            \<longleftrightarrow> (let s = stripPadding (filter (\<lambda>c. \<not> isAsciiWhitespace c) b)
                 in length s mod 4 = 1 \<or> list_ex (\<lambda>c. b64index c = None) s)"
    by (simp add: atob_def Let_def)
qed

theorem decodeNdarray_truncates_witness:
  "''i2'' \<in> set supportedDtypes \<and> base64ToBytes ''AQID'' = Inr [1, 2, 3]
   \<and> decodeNdarray \<lparr>dtype = ''i2'', bdata = ''AQID''\<rparr> = Inr [JNum (Fin 513)]
   \<and> length [JNum (Fin 513)] = length [1, 2, 3 :: byte] div dtypeWidth ''i2''
   \<and> base64ToBytes ''A'' = Inl InvalidCharacterError
   \<and> decodeNdarray \<lparr>dtype = ''i2'', bdata = ''A''\<rparr> = Inl InvalidCharacterError"
proof -
  have a: "''i2'' \<in> set supportedDtypes"
    by (simp add: supportedDtypes_def)
  have b: "base64ToBytes ''AQID'' = Inr [1, 2, 3]"
    by (simp add: base64ToBytes_atob atob_eval)
  have c: "decodeNdarray \<lparr>dtype = ''i2'', bdata = ''AQID''\<rparr> = Inr [JNum (Fin 513)]"
    by (simp add: decodeNdarray_def b typedView_def intElem_def toSigned_def leNat_def)
  from decodeNdarray_truncates [OF a, of "''AQID''" "[1, 2, 3]"] b c
  have d: "length [JNum (Fin 513)] = length [1, 2, 3 :: byte] div dtypeWidth ''i2''"
    by simp
  have e: "base64ToBytes ''A'' = Inl InvalidCharacterError"
    by (simp add: base64ToBytes_atob atob_eval)
  from decodeNdarray_truncates [OF a, of "''A''" _ InvalidCharacterError] e
  have f: "decodeNdarray \<lparr>dtype = ''i2'', bdata = ''A''\<rparr> = Inl InvalidCharacterError"
    by blast
  from a b c d e f show ?thesis by (intro conjI)
qed

theorem decodeNdarray_invalid_base64_counterexample:
  "''u1'' \<in> set supportedDtypes
   \<and> decodeNdarray \<lparr>dtype = ''u1'', bdata = ''A''\<rparr> = Inl InvalidCharacterError"
  by (simp add: supportedDtypes_def decodeNdarray_def base64ToBytes_atob atob_eval)

section \<open>The date coercion pass\<close>

text \<open>
  C9.  The date coercion pass is idempotent and total: running it twice gives what
  running it once gives; a \<^verbatim>\<open>Date\<close> is returned as it is; a number is changed exactly
  when it lies strictly between 10,000,000 and 17,000,000,000; and every value is either
  returned unchanged or turned into a valid \<^verbatim>\<open>Date\<close>.
\<close>

theorem coerceDates_idempotent:
  "coerceDatesPass h xName (coerceDatesPass h xName tabs) = coerceDatesPass h xName tabs
   \<and> maybeDate h (JDate d) = JDate d
   \<and> (maybeDate h (JNum n) \<noteq> JNum n
        \<longleftrightarrow> (\<exists>r. n = Fin r \<and> 10000000 < r \<and> r < 17000000000))
   \<and> (maybeDate h v = v \<or> (\<exists>ms. maybeDate h v = JDate (Some ms)))"
proof -
  have 1: "coerceDatesPass h xName (coerceDatesPass h xName tabs) = coerceDatesPass h xName tabs"
    by (simp add: coerceDatesPass_def maybeDate_idem comp_def cong: if_cong)
  have 2: "maybeDate h (JDate d) = JDate d"
    by (simp add: maybeDate_def)
  have 3: "maybeDate h (JNum n) \<noteq> JNum n
        \<longleftrightarrow> (\<exists>r. n = Fin r \<and> 10000000 < r \<and> r < 17000000000)"
    by (cases n) (auto simp add: maybeDate_def)
  have 4: "maybeDate h v = v \<or> (\<exists>ms. maybeDate h v = JDate (Some ms))"
    by (auto simp add: maybeDate_def split: jsval.splits number.splits option.splits)
  from 1 2 3 4 show ?thesis by blast
qed

section \<open>The extraction loop\<close>

text \<open>
  C1, as amended.  Decoding an array whose dtype is not one of the eight, and whose
  payload is base64, fails with the unsupported-dtype error, and so does \<open>toArray\<close> on
  it.  The error is not confined to its trace: \<open>extractTables\<close> has no handler, so when
  the conversion of a trace raises and every trace before it converted, \<open>extractTables\<close>
  raises that error and returns no table at all.
\<close>

theorem decode_error_aborts_extraction:
  "(isNdarrayLike v \<and> dtype (asNdarray v) \<notin> set supportedDtypes
      \<and> base64ToBytes (bdata (asNdarray v)) = Inr bytes
    \<longrightarrow> decodeNdarray (asNdarray v) = Inl (UnsupportedDtype (dtype (asNdarray v)))
        \<and> toArray v = Inl (UnsupportedDtype (dtype (asNdarray v))))
   \<and> (data fig = Some ts \<and> i < length ts
      \<and> traceTable h fig options (Suc i) (ts ! i) = Inl e
      \<and> (\<forall>j<i. \<exists>r. traceTable h fig options (Suc j) (ts ! j) = Inr r)
    \<longrightarrow> extractTables h fig options = Inl e)"
proof (intro conjI impI)
  assume a: "isNdarrayLike v \<and> dtype (asNdarray v) \<notin> set supportedDtypes
      \<and> base64ToBytes (bdata (asNdarray v)) = Inr bytes"
  then show "toArray v = Inl (UnsupportedDtype (dtype (asNdarray v)))"
    by (blast intro: toArray_unsupported)
  from a show "decodeNdarray (asNdarray v) = Inl (UnsupportedDtype (dtype (asNdarray v)))"
    by (simp add: decodeNdarray_def supportedDtypes_def)
next
  assume "data fig = Some ts \<and> i < length ts
      \<and> traceTable h fig options (Suc i) (ts ! i) = Inl e
      \<and> (\<forall>j<i. \<exists>r. traceTable h fig options (Suc j) (ts ! j) = Inr r)"
  then show "extractTables h fig options = Inl e"
    by (blast intro: extractTables_Inl)
qed

theorem decode_error_aborts_extraction_witness:
  "isNdarrayLike badArray \<and> dtype (asNdarray badArray) = ''i8''
   \<and> ''i8'' \<notin> set supportedDtypes
   \<and> base64ToBytes (bdata (asNdarray badArray)) = Inr [1, 2, 3]
   \<and> toArray badArray = Inl (UnsupportedDtype ''i8'')
   \<and> traceTable exampleHost
        (figureOf [scatterTrace, trace (Some ''scatter'') None [(''x'', badArray)]])
        (optionsOf False False) 1 scatterTrace = Inr (Some (scatterTable ''y_1''))
   \<and> traceTable exampleHost
        (figureOf [scatterTrace, trace (Some ''scatter'') None [(''x'', badArray)]])
        (optionsOf False False) 2 (trace (Some ''scatter'') None [(''x'', badArray)])
       = Inl (UnsupportedDtype ''i8'')
   \<and> extractTables exampleHost
        (figureOf [scatterTrace, trace (Some ''scatter'') None [(''x'', badArray)]])
        (optionsOf False False) = Inl (UnsupportedDtype ''i8'')"
proof -
  let ?bad = "trace (Some ''scatter'') None [(''x'', badArray)]"
  let ?ts = "[scatterTrace, ?bad]"
  let ?fig = "figureOf ?ts"
  let ?o = "optionsOf False False"
  note inst = decode_error_aborts_extraction [of badArray "[1, 2, 3]" ?fig ?ts 1 exampleHost ?o
      "UnsupportedDtype ''i8''"]
  have a: "isNdarrayLike badArray" "dtype (asNdarray badArray) = ''i8''"
    "''i8'' \<notin> set supportedDtypes"
    "base64ToBytes (bdata (asNdarray badArray)) = Inr [1, 2, 3]"
    by (simp_all add: badArray_facts supportedDtypes_def b64_AQID)
  have t1: "traceTable exampleHost ?fig ?o 1 scatterTrace = Inr (Some (scatterTable ''y_1''))"
    using traceTable_scatter [of exampleHost ?ts False False 1] by (simp add: showNat.simps)
  have t2: "traceTable exampleHost ?fig ?o 2 ?bad = Inl (UnsupportedDtype ''i8'')"
    by (rule traceTable_bad)
  from inst a have arr: "toArray badArray = Inl (UnsupportedDtype ''i8'')"
    by simp
  have "data ?fig = Some ?ts" "(1::nat) < length ?ts"
    "traceTable exampleHost ?fig ?o (Suc 1) (?ts ! 1) = Inl (UnsupportedDtype ''i8'')"
    "\<forall>j<(1::nat). \<exists>r. traceTable exampleHost ?fig ?o (Suc j) (?ts ! j) = Inr r"
    using t1 t2 by (simp_all add: figureOf_def numeral_2_eq_2)
  with inst have "extractTables exampleHost ?fig ?o = Inl (UnsupportedDtype ''i8'')"
    by blast
  with a arr t1 t2 show ?thesis by simp
qed

theorem decode_error_escapes_counterexample:
  "decodeNdarray \<lparr>dtype = ''i8'', bdata = ''AQID''\<rparr> = Inl (UnsupportedDtype ''i8'')
   \<and> extractTables exampleHost
        (figureOf [trace (Some ''scatter'') None [(''x'', badArray)],
                   trace (Some ''scatter'') None [(''x'', nums [1, 2]), (''y'', nums [3, 4])]])
        (optionsOf False False)
      = Inl (UnsupportedDtype ''i8'')"
  by (simp add: decodeNdarray_def b64_AQID extractTables_def figureOf_def traceTable_bad [unfolded figureOf_def])

text \<open>
  C3.  The code at the input of the claim: a figure whose only unnamed cartesian trace
  comes second, after a pie trace.  The counter has been incremented for the pie trace
  too, and the y column is named \<open>y_2\<close>.
\<close>

theorem fallback_ordinal_counts_every_trace:
  "extractTables exampleHost (figureOf [pieTrace, scatterTrace]) (optionsOf False False)
   = Inr [pieTable, scatterTable ''y_2'']"
  by (rule extract_pie_scatter)




section \<open>The padding invariant\<close>

text \<open>
  C7.  Every table that \<open>extractTables\<close> returns, with or without date coercion and
  merging, and every table that \<open>mergeCartesianTables\<close> returns, has all its columns of
  one length, the greatest number of values among them.  \<open>makeTable\<close> establishes it:
  it keeps the names and appends \<^verbatim>\<open>null\<close> to each column up to the longest.
\<close>

theorem padding_invariant:
  "(extractTables h fig options = Inr tabs \<longrightarrow> list_all paddedTable tabs)
   \<and> (mergeCartesianTables h tables xName = Inr m \<longrightarrow> paddedTable m)
   \<and> paddedTable (makeTable ttl cols mt)
   \<and> map name (columns (makeTable ttl cols mt)) = map name cols
   \<and> map vals (columns (makeTable ttl cols mt))
       = map (\<lambda>c. vals c @ replicate (maxLen cols - length (vals c)) JNull) cols"
proof -
  have "map name (padColumnsToSameLength cols) = map name cols"
    by (simp add: padColumnsToSameLength_def Let_def)
  moreover have "map vals (padColumnsToSameLength cols)
       = map (\<lambda>c. vals c @ replicate (maxLen cols - length (vals c)) JNull) cols"
    by (simp add: padColumnsToSameLength_def Let_def maxLen_def)
  ultimately show ?thesis
    by (simp add: extractTables_padded mergeCartesianTables_padded makeTable_def [of ttl cols mt]
          del: paddedTable_makeTable)
       (metis paddedTable_makeTable makeTable_def)
qed

theorem padding_invariant_witness:
  "extractTables exampleHost (figureOf [shortTrace]) (optionsOf False False) = Inr [shortTable]
   \<and> list_all paddedTable [shortTable]
   \<and> mergeCartesianTables exampleHost [shortTable] ''x'' = Inr shortMerged
   \<and> paddedTable shortMerged"
proof -
  note inv = padding_invariant [of exampleHost "figureOf [shortTrace]" "optionsOf False False"
      "[shortTable]" "[shortTable]" "''x''" shortMerged None "[]" "[]"]
  from inv extract_short have "list_all paddedTable [shortTable]" by blast
  moreover from inv merge_short have "paddedTable shortMerged" by blast
  ultimately show ?thesis
    using extract_short merge_short by simp
qed

section \<open>The shape resolver\<close>

lemma take_drop_clamp:
  "a \<le> b \<Longrightarrow> take (min b (length xs) - min a (length xs)) (drop (min a (length xs)) xs)
     = take (b - a) (drop a xs)"
  by (cases "a < length xs"; cases "b < length xs") (simp_all add: min_def)

lemma validArrayLength_natNum:
  "validArrayLength (natNum n) = (if n \<le> 4294967295 then Some n else None)"
  by (simp add: validArrayLength_def natNum_def)

lemma relIndex_of_nat: "relIndex len (Fin (of_nat k)) = min k len"
  by (simp add: relIndex_def Let_def)

lemma relIndex_natNum: "relIndex len (mulNat h r (natNum c)) = min (r * c) len"
proof -
  have e: "mulNat h r (natNum c) = Fin (of_nat (r * c))"
    by (simp add: mulNat_def natNum_def)
  show ?thesis
    unfolding e by (rule relIndex_of_nat)
qed

lemma reshape2D_nat:
  "reshape2D h flat (natNum rows) (natNum cols)
   = (if rows \<le> 4294967295
      then Inr (map (\<lambda>r. take cols (drop (r * cols) flat)) [0..<rows])
      else Inl RangeError)"
proof -
  have "slice flat (mulNat h r (natNum cols)) (mulNat h (r + 1) (natNum cols))
        = take cols (drop (r * cols) flat)" for r
    using take_drop_clamp [of "r * cols" "(r + 1) * cols" flat]
    by (simp add: slice_def relIndex_natNum Let_def)
  then show ?thesis
    by (simp add: reshape2D_def validArrayLength_natNum)
qed

lemma square_inj: "k * k = n * n \<Longrightarrow> k = (n::nat)"
proof -
  assume "k * k = n * n"
  then have e: "k\<^sup>2 = n\<^sup>2" by (simp add: power2_eq_square)
  then have "k\<^sup>2 \<le> n\<^sup>2" "n\<^sup>2 \<le> k\<^sup>2" by simp_all
  then have "k \<le> n" "n \<le> k"
    by (simp_all only: power2_nat_le_eq_le)
  then show ?thesis by simp
qed

lemma self_le_square: "(n::nat) \<le> n * n"
  by (cases n) simp_all

lemma sqrtInt_Some: "sqrtInt m = Some n \<longleftrightarrow> n * n = m"
proof
  assume "sqrtInt m = Some n"
  then have "find (\<lambda>k. k * k = m) [0..<Suc m] = Some n"
    by (simp only: sqrtInt_def)
  then obtain i where "[0..<Suc m] ! i * ([0..<Suc m] ! i) = m" "n = [0..<Suc m] ! i"
    unfolding find_Some_iff by blast
  then show "n * n = m" by simp
next
  assume sq: "n * n = m"
  have "n \<le> m" unfolding sq [symmetric] by (rule self_le_square)
  then have "n \<in> set [0..<Suc m]" by auto
  with sq have "\<exists>x. x \<in> set [0..<Suc m] \<and> x * x = m" by blast
  then have "find (\<lambda>k. k * k = m) [0..<Suc m] \<noteq> None"
    unfolding find_None_iff by blast
  then obtain k where k: "find (\<lambda>k. k * k = m) [0..<Suc m] = Some k" by blast
  then obtain i where "[0..<Suc m] ! i * ([0..<Suc m] ! i) = m" "k = [0..<Suc m] ! i"
    unfolding find_Some_iff by blast
  then have "k * k = n * n" using sq by simp
  then have "k = n" by (rule square_inj)
  with k show "sqrtInt m = Some n" by (simp only: sqrtInt_def)
qed

lemma ndarrayZ_rank2:
  assumes "decodeNdarray (asNdarray z) = Inr flat"
    and "parseShape h (getProp z ''shape'') = Some (s0 # s1 # rest)"
  shows "ndarrayZ h xVals yVals z
            = bindE (reshape2D h flat s0 s1) (\<lambda>Z.
                Inr (if xVals \<noteq> [] \<and> yVals \<noteq> []
                        \<and> (s0, s1) \<noteq> (natNum (length yVals), natNum (length xVals))
                        \<and> (s1, s0) = (natNum (length yVals), natNum (length xVals))
                     then transposeM Z else Z))"
proof (cases "reshape2D h flat s0 s1")
  case (Inl e)
  with assms show ?thesis by (simp add: ndarrayZ_def Let_def)
next
  case (Inr Z)
  with assms show ?thesis by (auto simp add: ndarrayZ_def Let_def)
qed

lemma ndarrayZ_rank_lt2:
  assumes "decodeNdarray (asNdarray z) = Inr flat"
    and "parseShape h (getProp z ''shape'') = Some shp" and "length shp < 2"
  shows "ndarrayZ h xVals yVals z = Inr [flat]"
proof -
  from assms(3) consider "shp = []" | s where "shp = [s]"
    by (cases shp; cases "tl shp") auto
  then show ?thesis
    using assms(1,2) by cases (simp_all add: ndarrayZ_def Let_def)
qed

lemma ndarrayZ_labels:
  assumes "decodeNdarray (asNdarray z) = Inr flat"
    and "parseShape h (getProp z ''shape'') = None" and "xVals \<noteq> []" and "yVals \<noteq> []"
  shows "ndarrayZ h xVals yVals z
         = reshape2D h flat (natNum (length yVals)) (natNum (length xVals))"
proof (cases "reshape2D h flat (natNum (length yVals)) (natNum (length xVals))")
  case (Inl e)
  with assms show ?thesis by (simp add: ndarrayZ_def Let_def)
next
  case (Inr Z)
  with assms show ?thesis by (simp add: ndarrayZ_def Let_def)
qed

lemma ndarrayZ_no_labels:
  assumes "decodeNdarray (asNdarray z) = Inr flat"
    and "parseShape h (getProp z ''shape'') = None" and "xVals = [] \<or> yVals = []"
  shows "ndarrayZ h xVals yVals z
         = (case sqrtInt (length flat) of
              Some n \<Rightarrow> reshape2D h flat (natNum n) (natNum n)
            | None \<Rightarrow> Inr [flat])"
proof (cases "sqrtInt (length flat)")
  case None
  with assms show ?thesis by (auto simp add: ndarrayZ_def Let_def)
next
  case (Some n)
  show ?thesis
  proof (cases "reshape2D h flat (natNum n) (natNum n)")
    case (Inl e)
    with Some assms show ?thesis by (auto simp add: ndarrayZ_def Let_def)
  next
    case (Inr Z)
    with Some assms show ?thesis by (auto simp add: ndarrayZ_def Let_def)
  qed
qed

lemmas decode_eval = decodeNdarray_def asNdarray_def u1Array_def typedView_def
  uintElem_def leNat_def cells_def base64ToBytes_atob atob_eval z23_def z4_def zu_def
  upt_rec_numeral

lemmas shape_eval = parseShape_def isNum_def numOf_def u1Array_def z23_def z4_def zu_def

lemmas reshape_eval = natNum_def reshape2D_def validArrayLength_def slice_def relIndex_def
  mulNat_def transposeM_def elemAt_def cells_def labelsAB_def labelsPQR_def Let_def
  upt_conv_Cons numeral_2_eq_2 numeral_3_eq_3

lemma decode_z23: "decodeNdarray (asNdarray z23) = Inr (cells [1, 2, 3, 4, 5, 6])"
  by (simp add: decode_eval)

lemma decode_z4: "decodeNdarray (asNdarray z4) = Inr (cells [1, 2, 3, 4])"
  by (simp add: decode_eval)

lemma decode_zu: "decodeNdarray (asNdarray zu) = Inr (cells [1, 2, 3, 4])"
  by (simp add: decode_eval)

lemma parseShape_z23: "parseShape h (getProp z23 ''shape'') = Some [Fin 2, Fin 3]"
  by (simp add: shape_eval)

lemma parseShape_z4: "parseShape h (getProp z4 ''shape'') = Some [Fin 4]"
  by (simp add: shape_eval)

lemma parseShape_zu: "parseShape h (getProp zu ''shape'') = None"
  by (simp add: shape_eval)

lemma sqrtInt_4: "sqrtInt 4 = Some 2"
  by (simp add: sqrtInt_Some)

lemma length_cells4: "length (cells [1, 2, 3, 4]) = 4"
  by (simp add: cells_def)

lemma reshape_23:
  "bindE (reshape2D h (cells [1, 2, 3, 4, 5, 6]) (Fin 2) (Fin 3)) (\<lambda>Z. Inr (transposeM Z))
   = Inr [cells [1, 4], cells [2, 5], cells [3, 6]]"
  by (simp add: reshape_eval)

lemma reshape_22:
  "reshape2D h (cells [1, 2, 3, 4]) (natNum 2) (natNum 2) = Inr [cells [1, 2], cells [3, 4]]"
  by (simp add: reshape_eval)

lemma ndarrayZ_z23:
  "ndarrayZ h labelsAB labelsPQR z23 = Inr [cells [1, 4], cells [2, 5], cells [3, 6]]"
  using reshape_23
  by (simp add: ndarrayZ_def decode_z23 parseShape_z23 labelsAB_def labelsPQR_def natNum_def)

lemma ndarrayZ_z4: "ndarrayZ h [] [] z4 = Inr [cells [1, 2, 3, 4]]"
  by (simp add: ndarrayZ_def decode_z4 parseShape_z4)

lemma claimedZ_z4:
  "claimedZ h (Some [Fin 4]) (cells [1, 2, 3, 4]) 0 0 = Inr [cells [1, 2], cells [3, 4]]"
  by (simp add: claimedZ_def length_cells4 sqrtInt_4 reshape_22)

text \<open>
  C4, as amended.  For a binary-encoded \<^verbatim>\<open>z\<close> that decodes to \<open>flat\<close>: a parsed
  shape with two or more entries reshapes row-major by its first two, and the matrix is
  transposed exactly when both label arrays are non-empty, the shape differs from
  (number of y labels, number of x labels) and its swap equals it; a parsed shape with
  fewer than two entries gives a single row, whatever the labels and the length; when no
  shape parses, the label counts are the shape if both label arrays are non-empty,
  otherwise a square if the length is a perfect square, otherwise a single row.  Reshaping
  by natural numbers is row-major.  The witness has the example of the claim: six
  elements, shape [2,3], two x labels and three y labels give the 3 by 2 arrangement.
\<close>

theorem ndarrayZ_shape_resolution:
  assumes "decodeNdarray (asNdarray z) = Inr flat"
  shows "(parseShape h (getProp z ''shape'') = Some (s0 # s1 # rest) \<longrightarrow>
            ndarrayZ h xVals yVals z
            = bindE (reshape2D h flat s0 s1) (\<lambda>Z.
                Inr (if xVals \<noteq> [] \<and> yVals \<noteq> []
                        \<and> (s0, s1) \<noteq> (natNum (length yVals), natNum (length xVals))
                        \<and> (s1, s0) = (natNum (length yVals), natNum (length xVals))
                     then transposeM Z else Z)))
       \<and> (parseShape h (getProp z ''shape'') = Some shp \<and> length shp < 2 \<longrightarrow>
            ndarrayZ h xVals yVals z = Inr [flat])
       \<and> (parseShape h (getProp z ''shape'') = None \<and> xVals \<noteq> [] \<and> yVals \<noteq> [] \<longrightarrow>
            ndarrayZ h xVals yVals z
            = reshape2D h flat (natNum (length yVals)) (natNum (length xVals)))
       \<and> (parseShape h (getProp z ''shape'') = None \<and> (xVals = [] \<or> yVals = []) \<longrightarrow>
            ndarrayZ h xVals yVals z
            = (case sqrtInt (length flat) of
                 Some n \<Rightarrow> reshape2D h flat (natNum n) (natNum n)
               | None \<Rightarrow> Inr [flat]))
       \<and> (sqrtInt m = Some n \<longleftrightarrow> n * n = m)
       \<and> reshape2D h flat (natNum rows) (natNum cols)
           = (if rows \<le> 4294967295
              then Inr (map (\<lambda>r. take cols (drop (r * cols) flat)) [0..<rows])
              else Inl RangeError)"
proof -
  have 1: "parseShape h (getProp z ''shape'') = Some (s0 # s1 # rest) \<longrightarrow>
            ndarrayZ h xVals yVals z
            = bindE (reshape2D h flat s0 s1) (\<lambda>Z.
                Inr (if xVals \<noteq> [] \<and> yVals \<noteq> []
                        \<and> (s0, s1) \<noteq> (natNum (length yVals), natNum (length xVals))
                        \<and> (s1, s0) = (natNum (length yVals), natNum (length xVals))
                     then transposeM Z else Z))"
    using ndarrayZ_rank2 [OF assms] by blast
  have 2: "parseShape h (getProp z ''shape'') = Some shp \<and> length shp < 2 \<longrightarrow>
            ndarrayZ h xVals yVals z = Inr [flat]"
    using ndarrayZ_rank_lt2 [OF assms] by blast
  have 3: "parseShape h (getProp z ''shape'') = None \<and> xVals \<noteq> [] \<and> yVals \<noteq> [] \<longrightarrow>
            ndarrayZ h xVals yVals z
            = reshape2D h flat (natNum (length yVals)) (natNum (length xVals))"
    using ndarrayZ_labels [OF assms] by blast
  have 4: "parseShape h (getProp z ''shape'') = None \<and> (xVals = [] \<or> yVals = []) \<longrightarrow>
            ndarrayZ h xVals yVals z
            = (case sqrtInt (length flat) of
                 Some n \<Rightarrow> reshape2D h flat (natNum n) (natNum n)
               | None \<Rightarrow> Inr [flat])"
    using ndarrayZ_no_labels [OF assms] by blast
  have 5: "sqrtInt m = Some n \<longleftrightarrow> n * n = m"
    by (rule sqrtInt_Some)
  have 6: "reshape2D h flat (natNum rows) (natNum cols)
           = (if rows \<le> 4294967295
              then Inr (map (\<lambda>r. take cols (drop (r * cols) flat)) [0..<rows])
              else Inl RangeError)"
    by (rule reshape2D_nat)
  show ?thesis
    by (intro conjI; fact)
qed

theorem ndarrayZ_shape_resolution_witness:
  "decodeNdarray (asNdarray z23) = Inr (cells [1, 2, 3, 4, 5, 6])
   \<and> parseShape exampleHost (getProp z23 ''shape'') = Some [Fin 2, Fin 3]
   \<and> ndarrayZ exampleHost labelsAB labelsPQR z23 = Inr [cells [1, 4], cells [2, 5], cells [3, 6]]
   \<and> parseShape exampleHost (getProp z4 ''shape'') = Some [Fin 4]
   \<and> ndarrayZ exampleHost [] [] z4 = Inr [cells [1, 2, 3, 4]]
   \<and> parseShape exampleHost (getProp zu ''shape'') = None
   \<and> ndarrayZ exampleHost labelsAB labelsAB zu = Inr [cells [1, 2], cells [3, 4]]
   \<and> sqrtInt (length (cells [1, 2, 3, 4])) = Some 2
   \<and> ndarrayZ exampleHost [] [] zu = Inr [cells [1, 2], cells [3, 4]]"
proof -
  note d6 = decode_z23 and d4 = decode_z4 and du = decode_zu
  note p23 = parseShape_z23 [of exampleHost] and p4 = parseShape_z4 [of exampleHost]
    and pu = parseShape_zu [of exampleHost]
  have lab: "labelsAB \<noteq> []" "labelsPQR \<noteq> []"
    "natNum (length labelsAB) = Fin 2" "natNum (length labelsPQR) = Fin 3"
    by (simp_all add: labelsAB_def labelsPQR_def natNum_def)
  from ndarrayZ_shape_resolution [OF d6, of exampleHost "Fin 2" "Fin 3" "[]" labelsAB labelsPQR] p23
  have "ndarrayZ exampleHost labelsAB labelsPQR z23
        = bindE (reshape2D exampleHost (cells [1, 2, 3, 4, 5, 6]) (Fin 2) (Fin 3)) (\<lambda>Z. Inr (transposeM Z))"
    by (simp add: lab)
  then have r1: "ndarrayZ exampleHost labelsAB labelsPQR z23
                 = Inr [cells [1, 4], cells [2, 5], cells [3, 6]]"
    by (simp only: reshape_23)
  from ndarrayZ_shape_resolution [OF d4, of exampleHost _ _ _ "[]" "[]" "[Fin 4]"] p4
  have r2: "ndarrayZ exampleHost [] [] z4 = Inr [cells [1, 2, 3, 4]]"
    by simp
  from ndarrayZ_shape_resolution [OF du, of exampleHost _ _ _ labelsAB labelsAB] pu lab(1)
  have "ndarrayZ exampleHost labelsAB labelsAB zu
        = reshape2D exampleHost (cells [1, 2, 3, 4]) (natNum (length labelsAB)) (natNum (length labelsAB))"
    by blast
  moreover have "length labelsAB = 2" by (simp add: labelsAB_def)
  ultimately have r3: "ndarrayZ exampleHost labelsAB labelsAB zu = Inr [cells [1, 2], cells [3, 4]]"
    by (simp only: reshape_22)
  have sq: "sqrtInt (length (cells [1, 2, 3, 4])) = Some 2"
    by (simp only: length_cells4 sqrtInt_4)
  from ndarrayZ_shape_resolution [OF du, of exampleHost _ _ _ "[]" "[]"] pu
  have "ndarrayZ exampleHost [] [] zu
        = (case sqrtInt (length (cells [1, 2, 3, 4])) of
             Some n \<Rightarrow> reshape2D exampleHost (cells [1, 2, 3, 4]) (natNum n) (natNum n)
           | None \<Rightarrow> Inr [cells [1, 2, 3, 4]])"
    by blast
  then have r4: "ndarrayZ exampleHost [] [] zu = Inr [cells [1, 2], cells [3, 4]]"
    by (simp only: sq option.case reshape_22)
  from d6 p23 r1 p4 r2 pu r3 sq r4 show ?thesis
    by (intro conjI)
qed

theorem rank1_shape_counterexample:
  "parseShape exampleHost (getProp z4 ''shape'') = Some [Fin 4]
   \<and> decodeNdarray (asNdarray z4) = Inr (cells [1, 2, 3, 4])
   \<and> ndarrayZ exampleHost [] [] z4 = Inr [cells [1, 2, 3, 4]]
   \<and> claimedZ exampleHost (Some [Fin 4]) (cells [1, 2, 3, 4]) 0 0 = Inr [cells [1, 2], cells [3, 4]]
   \<and> [cells [1, 2, 3, 4]] \<noteq> [cells [1, 2], cells [3, 4]]"
proof -
  have "[cells [1, 2, 3, 4]] \<noteq> [cells [1, 2], cells [3, 4]]"
    by (simp add: cells_def)
  with parseShape_z4 [of exampleHost] decode_z4 ndarrayZ_z4 [of exampleHost] claimedZ_z4 [of exampleHost]
  show ?thesis by (intro conjI)
qed


section \<open>Merging the cartesian tables\<close>

subsection \<open>The key union\<close>


lemma firstSeenBy_Nil [simp]: "firstSeenBy f [] = []"
  by (simp add: firstSeenBy_def)












subsection \<open>The series\<close>

lemma rowOfKey_Nil [simp]: "rowOfKey f [] = Map.empty"
  by (rule ext) (simp add: rowOfKey_def)







lemma length_seriesColumn [simp]: "length (vals (seriesColumn h xv xCol yCol)) = length xv"
  by (simp add: seriesColumn_def)




subsection \<open>The dictionary of the merged columns\<close>

















subsection \<open>The merged table\<close>



















subsection \<open>The merge inside the extraction\<close>

lemma fromCartesian_mergeCartesian [simp]:
  "fromCartesian fig t fb (options\<lparr>mergeCartesian := v\<rparr>) = fromCartesian fig t fb options"
  by (simp add: fromCartesian_def)

lemma traceTable_mergeCartesian [simp]:
  "traceTable h fig (options\<lparr>mergeCartesian := v\<rparr>) n t = traceTable h fig options n t"
  by (simp add: traceTable_def Let_def)

lemma traceLoop_mergeCartesian [simp]:
  "traceLoop h fig (options\<lparr>mergeCartesian := v\<rparr>) ts n acc = traceLoop h fig options ts n acc"
  by (induction ts arbitrary: n acc) simp_all











end
